theory Spec2Isabelle
  imports Main
begin

section \<open>JavaScript strings, digits and errors\<close>

text \<open>
  A JavaScript string is modelled as a \<^typ>\<open>string\<close>: one \<^typ>\<open>char\<close> per code unit,
  for code units below 256.  An exception is a value: a thrown object is a
  \<open>js_error\<close> that carries its \<open>message\<close>, and a function that may throw returns
  \<open>js_error + 'a\<close> with \<open>Inl\<close> for the throw.
\<close>

datatype js_error =
    Error string
  | TypeError string
  | RangeError string
  | SyntaxError string

fun message :: "js_error \<Rightarrow> string" where
  "message (Error m) = m"
| "message (TypeError m) = m"
| "message (RangeError m) = m"
| "message (SyntaxError m) = m"

text \<open>The regular expression class \<open>\d\<close>: the ten ASCII digits.\<close>

definition is_digit :: "char \<Rightarrow> bool" where
  "is_digit c = (48 \<le> (of_char c :: nat) \<and> (of_char c :: nat) \<le> 57)"

text \<open>
  The class \<open>\s\<close> on code units below 256: tab, line feed, vertical tab, form feed,
  carriage return, space and the no-break space.
\<close>

definition is_space :: "char \<Rightarrow> bool" where
  "is_space c = ((of_char c :: nat) \<in> {9, 10, 11, 12, 13, 32, 160})"

definition digit_val :: "char \<Rightarrow> nat" where
  "digit_val c = of_char c - 48"

definition digit_char :: "nat \<Rightarrow> char" where
  "digit_char d = char_of (48 + d)"

text \<open>\<open>parseInt\<close> on a string of decimal digits (the text of a \<open>\d{1,2}\<close> group).\<close>

definition parseInt :: "string \<Rightarrow> nat" where
  "parseInt ds = foldl (\<lambda>a c. 10 * a + digit_val c) 0 ds"

text \<open>\<open>Number.prototype.toString\<close> on a natural number: its decimal digits.\<close>

function toString :: "nat \<Rightarrow> string" where
  "toString n = (if n < 10 then [digit_char n] else toString (n div 10) @ [digit_char (n mod 10)])"
  by pat_completeness auto
termination
  by (relation "measure (\<lambda>n. n)") auto

declare toString.simps [simp del]

text \<open>\<open>s.padStart(n, '0')\<close>.\<close>

definition padStart0 :: "nat \<Rightarrow> string \<Rightarrow> string" where
  "padStart0 n s = replicate (n - length s) (CHR ''0'') @ s"

text \<open>
  \<open>String.prototype.toUpperCase\<close> on the letters \<open>a\<close> to \<open>z\<close>; every other code unit
  below 128 is left as it is.  It is only applied to the text of an \<open>(AM|PM)\<close> group.
\<close>

definition to_upper :: "char \<Rightarrow> char" where
  "to_upper c = (if 97 \<le> (of_char c :: nat) \<and> (of_char c :: nat) \<le> 122
                 then char_of ((of_char c :: nat) - 32) else c)"

definition toUpperCase :: "string \<Rightarrow> string" where
  "toUpperCase s = map to_upper s"

text \<open>The first alternative that matches wins; the second is tried when the first fails.\<close>

definition orelse :: "'a option \<Rightarrow> 'a option \<Rightarrow> 'a option" where
  "orelse a b = (case a of Some x \<Rightarrow> Some x | None \<Rightarrow> b)"

section \<open>The two patterns of the time normalizer\<close>

text \<open>
  \<open>/^(\d{1,2}):(\d{2})$/\<close>: the whole string is one or two digits, a colon and two
  digits.  The result holds the two groups.
\<close>

fun match_hhmm :: "string \<Rightarrow> (string \<times> string) option" where
  "match_hhmm [h1, c, m1, m2] =
     (if is_digit h1 \<and> c = CHR '':'' \<and> is_digit m1 \<and> is_digit m2
      then Some ([h1], [m1, m2]) else None)"
| "match_hhmm [h1, h2, c, m1, m2] =
     (if is_digit h1 \<and> is_digit h2 \<and> c = CHR '':'' \<and> is_digit m1 \<and> is_digit m2
      then Some ([h1, h2], [m1, m2]) else None)"
| "match_hhmm _ = None"

text \<open>
  \<open>/(\d{1,2}):?(\d{2})?\s*(AM|PM)/i\<close> is not anchored.  It is matched piece by piece,
  from the right end of the pattern to the left, every quantifier greedy with
  backtracking: the longer alternative is tried first, the shorter one when the rest of
  the pattern fails after it.

  \<open>(AM|PM)\<close> under the flag \<open>i\<close>: the text of the group.
\<close>

fun match_period :: "string \<Rightarrow> string option" where
  "match_period (a # m # rest) =
     (if (a = CHR ''A'' \<or> a = CHR ''a'') \<and> (m = CHR ''M'' \<or> m = CHR ''m'') then Some [a, m]
      else if (a = CHR ''P'' \<or> a = CHR ''p'') \<and> (m = CHR ''M'' \<or> m = CHR ''m'') then Some [a, m]
      else None)"
| "match_period _ = None"

text \<open>\<open>\s*(AM|PM)\<close>.\<close>

fun match_ws_period :: "string \<Rightarrow> string option" where
  "match_ws_period [] = match_period []"
| "match_ws_period (c # cs) =
     (if is_space c then orelse (match_ws_period cs) (match_period (c # cs))
      else match_period (c # cs))"

text \<open>\<open>(\d{2})?\s*(AM|PM)\<close>: the minutes group, when it took part, and the period.\<close>

fun match_minutes :: "string \<Rightarrow> (string option \<times> string) option" where
  "match_minutes (m1 # m2 # rest) =
     orelse
       (if is_digit m1 \<and> is_digit m2
        then map_option (\<lambda>p. (Some [m1, m2], p)) (match_ws_period rest) else None)
       (map_option (\<lambda>p. (None, p)) (match_ws_period (m1 # m2 # rest)))"
| "match_minutes s = map_option (\<lambda>p. (None, p)) (match_ws_period s)"

text \<open>\<open>:?(\d{2})?\s*(AM|PM)\<close>.\<close>

fun match_colon :: "string \<Rightarrow> (string option \<times> string) option" where
  "match_colon (c # rest) =
     orelse (if c = CHR '':'' then match_minutes rest else None) (match_minutes (c # rest))"
| "match_colon [] = match_minutes []"

text \<open>The whole pattern at one start position: hour group, minutes group, period group.\<close>

fun match_ampm_at :: "string \<Rightarrow> (string \<times> string option \<times> string) option" where
  "match_ampm_at (h1 # h2 # rest) =
     orelse
       (if is_digit h1 \<and> is_digit h2
        then map_option (\<lambda>(m, p). ([h1, h2], m, p)) (match_colon rest) else None)
       (if is_digit h1
        then map_option (\<lambda>(m, p). ([h1], m, p)) (match_colon (h2 # rest)) else None)"
| "match_ampm_at [h1] =
     (if is_digit h1 then map_option (\<lambda>(m, p). ([h1], m, p)) (match_colon []) else None)"
| "match_ampm_at [] = None"

text \<open>\<open>time.match(...)\<close>: the match at the leftmost start position that has one.\<close>

fun match_ampm :: "string \<Rightarrow> (string \<times> string option \<times> string) option" where
  "match_ampm [] = match_ampm_at []"
| "match_ampm (c # cs) = orelse (match_ampm_at (c # cs)) (match_ampm cs)"

section \<open>Time normalization\<close>

text \<open>
  The hour arithmetic both normalizers share, written as the two statements of the source:
  \<open>if (period === 'PM' && hour !== 12) hour += 12; if (period === 'AM' && hour === 12) hour = 0;\<close>
\<close>

definition adjust_hour :: "string \<Rightarrow> nat \<Rightarrow> nat" where
  "adjust_hour period hour =
     (let hour1 = (if period = ''PM'' \<and> hour \<noteq> 12 then hour + 12 else hour)
      in if period = ''AM'' \<and> hour1 = 12 then 0 else hour1)"

text \<open>The body of the \<open>if (ampmMatch)\<close> branch, from the three groups of the match.\<close>

definition from_ampm :: "string \<times> string option \<times> string \<Rightarrow> string" where
  "from_ampm g =
     (case g of (h, m, p) \<Rightarrow>
        let hour = adjust_hour (toUpperCase p) (parseInt h);
            minute = (case m of Some mm \<Rightarrow> mm | None \<Rightarrow> ''00'')
        in padStart0 2 (toString hour) @ '':'' @ minute)"

text \<open>
  \<open>normalizeTime\<close> of the service-account entry point.  The first branch returns only for
  an hour below 24 (\<open>hour >= 0\<close> holds of every parsed hour); otherwise control falls
  through to the 12-hour pattern, and to the \<open>throw\<close> when that does not match either.
\<close>

definition hhmm_branch :: "string \<Rightarrow> string option" where
  "hhmm_branch time =
     (case match_hhmm time of
        Some (h, minute) \<Rightarrow>
          (let hour = parseInt h
           in if hour < 24 then Some (padStart0 2 (toString hour) @ '':'' @ minute) else None)
      | None \<Rightarrow> None)"

definition normalizeTime :: "string \<Rightarrow> js_error + string" where
  "normalizeTime time =
     (case hhmm_branch time of
        Some normalized \<Rightarrow> Inr normalized
      | None \<Rightarrow>
          (case match_ampm time of
             Some g \<Rightarrow> Inr (from_ampm g)
           | None \<Rightarrow>
               Inl (Error (''Invalid time format: '' @ time @ ''. Expected HH:MM or H:MM AM/PM''))))"

text \<open>
  \<open>formatTime\<close>, the normalizer inside \<open>checkAvailability\<close> of \<open>src/index.js\<close>:
  \<open>/^\d{2}:\d{2}$/\<close> returns the input, \<open>/^\d{1}:\d{2}$/\<close> pads it to five characters,
  the 12-hour pattern is handled as above, and every other input is returned as it is.
\<close>

fun test_2d_2d :: "string \<Rightarrow> bool" where
  "test_2d_2d [h1, h2, c, m1, m2] =
     (is_digit h1 \<and> is_digit h2 \<and> c = CHR '':'' \<and> is_digit m1 \<and> is_digit m2)"
| "test_2d_2d _ = False"

fun test_1d_2d :: "string \<Rightarrow> bool" where
  "test_1d_2d [h1, c, m1, m2] = (is_digit h1 \<and> c = CHR '':'' \<and> is_digit m1 \<and> is_digit m2)"
| "test_1d_2d _ = False"

definition formatTime :: "string \<Rightarrow> string" where
  "formatTime time =
     (if test_2d_2d time then time
      else if test_1d_2d time then padStart0 5 time
      else (case match_ampm time of
              Some g \<Rightarrow> from_ampm g
            | None \<Rightarrow> time))"

text \<open>
  Vocabulary for the inputs of the properties below: the spellings of the two suffixes, an
  hour of one or two digits, an optional two-digit minute, and the text
  \<open>hour[:minutes][whitespace]suffix\<close>.
\<close>

definition pm_forms :: "string set" where
  "pm_forms = {''PM'', ''Pm'', ''pM'', ''pm''}"

definition am_forms :: "string set" where
  "am_forms = {''AM'', ''Am'', ''aM'', ''am''}"

definition is_hour_text :: "string \<Rightarrow> bool" where
  "is_hour_text h = ((length h = 1 \<or> length h = 2) \<and> list_all is_digit h)"

definition is_minutes_opt :: "string option \<Rightarrow> bool" where
  "is_minutes_opt m =
     (case m of None \<Rightarrow> True | Some mm \<Rightarrow> length mm = 2 \<and> list_all is_digit mm)"

definition twelve_hour_text :: "string \<Rightarrow> string option \<Rightarrow> string \<Rightarrow> string \<Rightarrow> string" where
  "twelve_hour_text h m ws sfx =
     h @ (case m of Some mm \<Rightarrow> '':'' @ mm | None \<Rightarrow> []) @ ws @ sfx"

section \<open>Values, objects and the remote collaborators\<close>

text \<open>
  The values that reach the calendar functions as arguments and leave them as properties of
  a result object: \<open>undefined\<close>, a boolean or a string (the tool schema types every
  parameter as a string; a parameter that is absent is \<open>undefined\<close>).  An object literal is
  the list of its properties in the order they are written.
\<close>

datatype js_value = Undefined | Bool bool | Str string

type_synonym js_object = "(string \<times> js_value) list"

text \<open>Property access \<open>obj.k\<close>.\<close>

definition get_prop :: "js_object \<Rightarrow> string \<Rightarrow> js_value" where
  "get_prop obj k = (case map_of obj k of Some v \<Rightarrow> v | None \<Rightarrow> Undefined)"

text \<open>A value inside a template literal, \<open>${v}\<close>.\<close>

fun to_text :: "js_value \<Rightarrow> string" where
  "to_text Undefined = ''undefined''"
| "to_text (Bool b) = (if b then ''true'' else ''false'')"
| "to_text (Str s) = s"

fun truthy :: "js_value \<Rightarrow> bool" where
  "truthy Undefined = False"
| "truthy (Bool b) = b"
| "truthy (Str s) = (s \<noteq> [])"

text \<open>
  A \<open>Date\<close> is its time value in milliseconds, or \<open>None\<close> for an invalid date.
  \<open>toISOString\<close> throws on an invalid date; the ISO text of a valid one is represented by
  the time value it denotes, so \<open>new Date(timeMin)\<close> is that time value again.  Two dates
  compare by their time values, and no comparison with an invalid date holds.
\<close>

type_synonym instant = int

definition toISOString :: "instant option \<Rightarrow> js_error + instant" where
  "toISOString d = (case d of Some t \<Rightarrow> Inr t | None \<Rightarrow> Inl (RangeError ''Invalid time value''))"

definition date_lt :: "instant option \<Rightarrow> instant option \<Rightarrow> bool" where
  "date_lt a b = (case a of None \<Rightarrow> False | Some x \<Rightarrow> (case b of None \<Rightarrow> False | Some y \<Rightarrow> x < y))"

text \<open>A calendar event as the list operation returns it: \<open>start\<close> and \<open>end\<close> each hold
  \<open>dateTime\<close> or, for an all-day event, \<open>date\<close>.\<close>

record event_time =
  dateTime :: "string option"
  date_only :: "string option"

record cal_event =
  ev_summary :: "string option"
  ev_start :: event_time
  ev_end :: event_time

record list_request =
  lr_calendarId :: string
  lr_timeMin :: instant
  lr_timeMax :: instant

record event_resource =
  r_summary :: js_value
  r_description :: js_value
  r_start :: "instant \<times> string"
  r_end :: "instant \<times> string"
  r_attendees :: "js_value list option"
  r_sendUpdates :: "string option"

record insert_request =
  ir_calendarId :: string
  ir_resource :: event_resource

record insert_data =
  ins_id :: js_value
  ins_htmlLink :: js_value

text \<open>The argument bag of a tool call after parsing: \<open>null\<close>, \<open>undefined\<close> or an object.\<close>

datatype parsed_args = NullArgs | UndefinedArgs | Fields js_object

text \<open>The messages exchanged with the completion service.\<close>

datatype content_block =
    TextBlock string
  | ToolUseBlock string string js_object
  | ToolResultBlock string "js_object option"

datatype message_content = Text string | Blocks "content_block list"

record chat_message =
  role :: string
  content :: string

record llm_message =
  m_role :: string
  m_content :: message_content

record llm_request =
  q_max_tokens :: nat
  q_system :: string
  q_messages :: "llm_message list"
  q_tools :: "string list"

record llm_response =
  stop_reason :: string
  r_content :: "content_block list"

text \<open>
  Everything outside the program is a parameter: the \<open>Date\<close> constructor on a string,
  \<open>JSON.parse\<close>, the calendar's \<open>events.list\<close> and \<open>events.insert\<close>, the completion
  service's \<open>messages.create\<close> and the environment variable \<open>GOOGLE_CALENDAR_ID\<close>.
  A remote operation takes the state \<open>'w\<close> of the remote services and returns the next
  one with its answer, \<open>Inl\<close> when the awaited promise rejects.
\<close>

record 'w collaborators =
  newDate :: "string \<Rightarrow> instant option"
  JSON_parse :: "string \<Rightarrow> js_error + parsed_args"
  events_list :: "'w \<Rightarrow> list_request \<Rightarrow> (js_error + cal_event list option) \<times> 'w"
  events_insert :: "'w \<Rightarrow> insert_request \<Rightarrow> (js_error + insert_data) \<times> 'w"
  messages_create :: "'w \<Rightarrow> llm_request \<Rightarrow> (js_error + llm_response) \<times> 'w"
  GOOGLE_CALENDAR_ID :: "string option"

section \<open>The availability engine\<close>

text \<open>\<open>time.match(...)\<close> on an argument that is not a string throws a \<open>TypeError\<close>.\<close>

fun match_TypeError :: "js_value \<Rightarrow> js_error" where
  "match_TypeError Undefined = TypeError ''Cannot read properties of undefined (reading 'match')''"
| "match_TypeError v = TypeError ''time.match is not a function''"

definition normalizeTime_arg :: "js_value \<Rightarrow> js_error + string" where
  "normalizeTime_arg time =
     (case time of Str s \<Rightarrow> normalizeTime s | v \<Rightarrow> Inl (match_TypeError v))"

text \<open>
  \<open>formatTime\<close> on any argument: \<open>RegExp.test\<close> converts its argument to a string, and
  neither \<open>undefined\<close>, \<open>true\<close> nor \<open>false\<close> matches the first two patterns, so such
  an argument reaches \<open>time.match\<close>.
\<close>

definition formatTime_arg :: "js_value \<Rightarrow> js_error + string" where
  "formatTime_arg time =
     (case time of Str s \<Rightarrow> Inr (formatTime s) | v \<Rightarrow> Inl (match_TypeError v))"

text \<open>\<open>a || b\<close> on two optional strings.\<close>

definition or_string :: "string option \<Rightarrow> string option \<Rightarrow> string option" where
  "or_string a b = (case a of Some s \<Rightarrow> if s = [] then b else Some s | None \<Rightarrow> b)"

text \<open>\<open>new Date(t.dateTime || t.date)\<close>; \<open>new Date(undefined)\<close> is an invalid date.\<close>

definition event_date :: "'w collaborators \<Rightarrow> event_time \<Rightarrow> instant option" where
  "event_date c t =
     (case or_string (dateTime t) (date_only t) of Some s \<Rightarrow> newDate c s | None \<Rightarrow> None)"

text \<open>The filter of \<open>checkAvailability\<close>:
  \<open>eventStart < requestEnd && eventEnd > requestStart\<close>.\<close>

definition overlaps :: "'w collaborators \<Rightarrow> instant \<Rightarrow> instant \<Rightarrow> cal_event \<Rightarrow> bool" where
  "overlaps c requestStart requestEnd event =
     (date_lt (event_date c (ev_start event)) (Some requestEnd)
      \<and> date_lt (Some requestStart) (event_date c (ev_end event)))"

text \<open>\<open>process.env.GOOGLE_CALENDAR_ID || 'primary'\<close>.\<close>

definition calendar_id :: "'w collaborators \<Rightarrow> string" where
  "calendar_id c =
     (case GOOGLE_CALENDAR_ID c of Some s \<Rightarrow> if s = [] then ''primary'' else s | None \<Rightarrow> ''primary'')"

text \<open>
  The statements of the \<open>try\<close> block before the remote call: both times are normalized,
  then both instants are composed with the fixed offset and printed.
\<close>

definition request_window ::
  "'w collaborators \<Rightarrow> js_value \<Rightarrow> js_value \<Rightarrow> js_value \<Rightarrow> js_error + (instant \<times> instant)" where
  "request_window c date startTime endTime =
     (case normalizeTime_arg startTime of
        Inl e \<Rightarrow> Inl e
      | Inr formattedStart \<Rightarrow>
     (case normalizeTime_arg endTime of
        Inl e \<Rightarrow> Inl e
      | Inr formattedEnd \<Rightarrow>
     (case toISOString (newDate c (to_text date @ ''T'' @ formattedStart @ '':00-05:00'')) of
        Inl e \<Rightarrow> Inl e
      | Inr timeMin \<Rightarrow>
     (case toISOString (newDate c (to_text date @ ''T'' @ formattedEnd @ '':00-05:00'')) of
        Inl e \<Rightarrow> Inl e
      | Inr timeMax \<Rightarrow> Inr (timeMin, timeMax)))))"

definition availability_message :: "bool \<Rightarrow> js_value \<Rightarrow> js_value \<Rightarrow> js_value \<Rightarrow> string" where
  "availability_message isAvailable date startTime endTime =
     (if isAvailable
      then ''Yes, '' @ to_text date @ '' from '' @ to_text startTime @ '' to '' @ to_text endTime
           @ '' is available.''
      else ''Sorry, '' @ to_text date @ '' from '' @ to_text startTime @ '' to '' @ to_text endTime
           @ '' is already booked.'')"

text \<open>\<open>checkAvailability\<close> of the service-account entry point (with \<open>normalizeTime\<close> and
  the local overlap filter).  An exception anywhere in the body is caught.\<close>

definition checkAvailability ::
  "'w collaborators \<Rightarrow> 'w \<Rightarrow> js_value \<Rightarrow> js_value \<Rightarrow> js_value \<Rightarrow> js_object \<times> 'w" where
  "checkAvailability c w date startTime endTime =
     (let caught = (\<lambda>e. [(''available'', Bool False),
                         (''message'', Str (''Unable to check calendar availability at this time. Error: ''
                                            @ message e))])
      in case request_window c date startTime endTime of
           Inl e \<Rightarrow> (caught e, w)
         | Inr (timeMin, timeMax) \<Rightarrow>
             (case events_list c w
                     \<lparr>lr_calendarId = calendar_id c, lr_timeMin = timeMin, lr_timeMax = timeMax\<rparr> of
                (Inl e, w') \<Rightarrow> (caught e, w')
              | (Inr items, w') \<Rightarrow>
                  (let events = (case items of Some xs \<Rightarrow> xs | None \<Rightarrow> []);
                       overlappingEvents = filter (overlaps c timeMin timeMax) events;
                       isAvailable = (length overlappingEvents = 0);
                       debugInfo = '' [DEBUG: Found '' @ toString (length events) @ '' total events, ''
                                   @ toString (length overlappingEvents) @ '' overlapping]''
                   in ([(''available'', Bool isAvailable),
                        (''message'', Str (availability_message isAvailable date startTime endTime
                                           @ debugInfo))], w'))))"

text \<open>\<open>checkAvailability\<close> of \<open>src/index.js\<close>: \<open>formatTime\<close>, the calendar \<open>primary\<close>,
  and the answer decided by \<open>response.data.items.length === 0\<close>.\<close>

definition request_window_index ::
  "'w collaborators \<Rightarrow> js_value \<Rightarrow> js_value \<Rightarrow> js_value \<Rightarrow> js_error + (instant \<times> instant)" where
  "request_window_index c date startTime endTime =
     (case formatTime_arg startTime of
        Inl e \<Rightarrow> Inl e
      | Inr formattedStart \<Rightarrow>
     (case formatTime_arg endTime of
        Inl e \<Rightarrow> Inl e
      | Inr formattedEnd \<Rightarrow>
     (case toISOString (newDate c (to_text date @ ''T'' @ formattedStart @ '':00-05:00'')) of
        Inl e \<Rightarrow> Inl e
      | Inr timeMin \<Rightarrow>
     (case toISOString (newDate c (to_text date @ ''T'' @ formattedEnd @ '':00-05:00'')) of
        Inl e \<Rightarrow> Inl e
      | Inr timeMax \<Rightarrow> Inr (timeMin, timeMax)))))"

definition checkAvailability_index ::
  "'w collaborators \<Rightarrow> 'w \<Rightarrow> js_value \<Rightarrow> js_value \<Rightarrow> js_value \<Rightarrow> js_object \<times> 'w" where
  "checkAvailability_index c w date startTime endTime =
     (let caught = [(''available'', Bool False),
                    (''message'', Str ''Unable to check calendar availability at this time.'')]
      in case request_window_index c date startTime endTime of
           Inl e \<Rightarrow> (caught, w)
         | Inr (timeMin, timeMax) \<Rightarrow>
             (case events_list c w
                     \<lparr>lr_calendarId = ''primary'', lr_timeMin = timeMin, lr_timeMax = timeMax\<rparr> of
                (Inl e, w') \<Rightarrow> (caught, w')
              | (Inr None, w') \<Rightarrow> (caught, w')
              | (Inr (Some items), w') \<Rightarrow>
                  (let isAvailable = (length items = 0)
                   in ([(''available'', Bool isAvailable),
                        (''message'', Str (availability_message isAvailable date startTime endTime))],
                       w'))))"

text \<open>\<open>checkAvailability\<close> of the first conversational entry point: no normalization, no
  offset, and a boolean for a result.\<close>

definition checkAvailability_v1 ::
  "'w collaborators \<Rightarrow> 'w \<Rightarrow> js_value \<Rightarrow> js_value \<Rightarrow> js_value \<Rightarrow> bool \<times> 'w" where
  "checkAvailability_v1 c w date startTime endTime =
     (case toISOString (newDate c (to_text date @ ''T'' @ to_text startTime @ '':00'')) of
        Inl e \<Rightarrow> (False, w)
      | Inr timeMin \<Rightarrow>
     (case toISOString (newDate c (to_text date @ ''T'' @ to_text endTime @ '':00'')) of
        Inl e \<Rightarrow> (False, w)
      | Inr timeMax \<Rightarrow>
     (case events_list c w
             \<lparr>lr_calendarId = ''primary'', lr_timeMin = timeMin, lr_timeMax = timeMax\<rparr> of
        (Inl e, w') \<Rightarrow> (False, w')
      | (Inr None, w') \<Rightarrow> (False, w')
      | (Inr (Some items), w') \<Rightarrow> (length items = 0, w'))))"

section \<open>The booking engine\<close>

text \<open>A default parameter \<open>p = ''\<close> replaces an argument that is \<open>undefined\<close>.\<close>

fun default_empty :: "js_value \<Rightarrow> js_value" where
  "default_empty Undefined = Str []"
| "default_empty v = v"

text \<open>The event record of \<open>bookAppointment\<close> (service-account entry point), with the
  attendees and \<open>sendUpdates\<close> added when \<open>email\<close> is truthy.\<close>

definition booking_event ::
  "'w collaborators \<Rightarrow> js_value \<Rightarrow> js_value \<Rightarrow> js_value \<Rightarrow> js_value \<Rightarrow> js_value \<Rightarrow> js_value
     \<Rightarrow> js_error + event_resource" where
  "booking_event c summary date startTime endTime description email =
     (case normalizeTime_arg startTime of
        Inl e \<Rightarrow> Inl e
      | Inr formattedStart \<Rightarrow>
     (case normalizeTime_arg endTime of
        Inl e \<Rightarrow> Inl e
      | Inr formattedEnd \<Rightarrow>
     (case toISOString (newDate c (to_text date @ ''T'' @ formattedStart @ '':00-05:00'')) of
        Inl e \<Rightarrow> Inl e
      | Inr startISO \<Rightarrow>
     (case toISOString (newDate c (to_text date @ ''T'' @ formattedEnd @ '':00-05:00'')) of
        Inl e \<Rightarrow> Inl e
      | Inr endISO \<Rightarrow>
          Inr \<lparr>r_summary = summary, r_description = description,
               r_start = (startISO, ''America/New_York''), r_end = (endISO, ''America/New_York''),
               r_attendees = (if truthy email then Some [email, Str ''rcmccoy10@gmail.com''] else None),
               r_sendUpdates = (if truthy email then Some ''all'' else None)\<rparr>))))"

definition bookAppointment ::
  "'w collaborators \<Rightarrow> 'w \<Rightarrow> js_value \<Rightarrow> js_value \<Rightarrow> js_value \<Rightarrow> js_value \<Rightarrow> js_value \<Rightarrow> js_value
     \<Rightarrow> js_object \<times> 'w" where
  "bookAppointment c w summary date startTime endTime description email =
     (let caught = (\<lambda>e. [(''success'', Bool False),
                         (''message'', Str (''Unable to book the appointment at this time. Error: ''
                                            @ message e))])
      in case booking_event c summary date startTime endTime
                (default_empty description) (default_empty email) of
           Inl e \<Rightarrow> (caught e, w)
         | Inr event \<Rightarrow>
             (case events_insert c w \<lparr>ir_calendarId = calendar_id c, ir_resource = event\<rparr> of
                (Inl e, w') \<Rightarrow> (caught e, w')
              | (Inr data, w') \<Rightarrow>
                  ([(''success'', Bool True),
                    (''message'', Str (''Appointment booked successfully for '' @ to_text date
                                       @ '' from '' @ to_text startTime @ '' to '' @ to_text endTime
                                       @ ''.'')),
                    (''eventId'', ins_id data),
                    (''link'', ins_htmlLink data)], w')))"

text \<open>\<open>bookAppointment\<close> of the conversational entry points: the times are used as they
  come, the calendar is \<open>primary\<close>, and the result objects are
  \<open>{success, eventId, link}\<close> and \<open>{success, error}\<close>.\<close>

definition booking_event_v1 ::
  "'w collaborators \<Rightarrow> js_value \<Rightarrow> js_value \<Rightarrow> js_value \<Rightarrow> js_value \<Rightarrow> js_value
     \<Rightarrow> js_error + event_resource" where
  "booking_event_v1 c summary date startTime endTime description =
     (case toISOString (newDate c (to_text date @ ''T'' @ to_text startTime @ '':00'')) of
        Inl e \<Rightarrow> Inl e
      | Inr startISO \<Rightarrow>
     (case toISOString (newDate c (to_text date @ ''T'' @ to_text endTime @ '':00'')) of
        Inl e \<Rightarrow> Inl e
      | Inr endISO \<Rightarrow>
          Inr \<lparr>r_summary = summary, r_description = description,
               r_start = (startISO, ''America/New_York''), r_end = (endISO, ''America/New_York''),
               r_attendees = None, r_sendUpdates = None\<rparr>))"

definition bookAppointment_v1 ::
  "'w collaborators \<Rightarrow> 'w \<Rightarrow> js_value \<Rightarrow> js_value \<Rightarrow> js_value \<Rightarrow> js_value \<Rightarrow> js_value
     \<Rightarrow> js_object \<times> 'w" where
  "bookAppointment_v1 c w summary date startTime endTime description =
     (let caught = (\<lambda>e. [(''success'', Bool False), (''error'', Str (message e))])
      in case booking_event_v1 c summary date startTime endTime (default_empty description) of
           Inl e \<Rightarrow> (caught e, w)
         | Inr event \<Rightarrow>
             (case events_insert c w \<lparr>ir_calendarId = ''primary'', ir_resource = event\<rparr> of
                (Inl e, w') \<Rightarrow> (caught e, w')
              | (Inr data, w') \<Rightarrow>
                  ([(''success'', Bool True),
                    (''eventId'', ins_id data),
                    (''link'', ins_htmlLink data)], w')))"

section \<open>The tool-call webhook\<close>

text \<open>
  An invocation carries its arguments as a JSON text or as a value.  An element of
  \<open>message.toolCalls\<close> is \<open>null\<close> (\<open>None\<close>) or an object with an \<open>id\<close> and, when the
  property is present, a \<open>function\<close> object that holds the name and the arguments.
\<close>

datatype tool_arguments = Encoded string | Structured parsed_args

record tool_function =
  fn_name :: string
  fn_arguments :: tool_arguments

record tool_call =
  tc_id :: string
  tc_function :: "tool_function option"

record tool_result =
  toolCallId :: string
  result :: js_value

datatype response_body =
    Received
  | Results "tool_result list"
  | Choices string
  | ErrorMessage string
  | ApiError string

record http_response =
  status :: nat
  body :: response_body

text \<open>\<open>const { k, ... } = parsedArgs\<close> throws on \<open>null\<close> and on \<open>undefined\<close>; \<open>k\<close> is
  the first property of the pattern, printed between apostrophes.\<close>

definition destructure :: "string \<Rightarrow> parsed_args \<Rightarrow> js_error + js_object" where
  "destructure k parsedArgs =
     (case parsedArgs of
        Fields obj \<Rightarrow> Inr obj
      | NullArgs \<Rightarrow>
          Inl (TypeError (''Cannot destructure property '' @ [CHR 0x27] @ k @ [CHR 0x27]
                          @ '' of 'parsedArgs' as it is null.''))
      | UndefinedArgs \<Rightarrow>
          Inl (TypeError (''Cannot destructure property '' @ [CHR 0x27] @ k @ [CHR 0x27]
                          @ '' of 'parsedArgs' as it is undefined.'')))"

text \<open>
  The first two statements of the loop body, which stand before the \<open>try\<close>:
  \<open>const { id: toolCallId, function: func } = toolCall\<close> throws when the element is
  \<open>null\<close>, and \<open>const { name, arguments: args } = func\<close> throws when the element has no
  \<open>function\<close>.  Otherwise they give the id, the name and the arguments.
\<close>

definition destructure_call :: "tool_call option \<Rightarrow> js_error + (string \<times> string \<times> tool_arguments)" where
  "destructure_call toolCall =
     (case toolCall of
        None \<Rightarrow> Inl (TypeError ''Cannot destructure property 'id' of 'toolCall' as it is null.'')
      | Some tc \<Rightarrow>
          (case tc_function tc of
             None \<Rightarrow>
               Inl (TypeError ''Cannot destructure property 'name' of 'func' as it is undefined.'')
           | Some f \<Rightarrow> Inr (tc_id tc, fn_name f, fn_arguments f)))"

text \<open>The rest of the loop body: the \<open>try\<close> block and its \<open>catch\<close>.  Either way one
  result is pushed, under the id of the invocation.\<close>

definition run_tool_call ::
  "'w collaborators \<Rightarrow> 'w \<Rightarrow> string \<Rightarrow> string \<Rightarrow> tool_arguments \<Rightarrow> tool_result \<times> 'w" where
  "run_tool_call c w tid name args =
     (let caught = (\<lambda>e. \<lparr>toolCallId = tid, result = Str (''Error: '' @ message e)\<rparr>)
      in case (case args of
                 Encoded text \<Rightarrow> JSON_parse c text
               | Structured v \<Rightarrow> Inr v) of
           Inl e \<Rightarrow> (caught e, w)
         | Inr parsedArgs \<Rightarrow>
             if name = ''check_availability'' then
               (case destructure ''date'' parsedArgs of
                  Inl e \<Rightarrow> (caught e, w)
                | Inr a \<Rightarrow>
                    (case checkAvailability c w (get_prop a ''date'') (get_prop a ''start_time'')
                            (get_prop a ''end_time'') of
                       (availabilityResult, w') \<Rightarrow>
                         (\<lparr>toolCallId = tid,
                           result = get_prop availabilityResult ''message''\<rparr>, w')))
             else if name = ''book_appointment'' then
               (case destructure ''summary'' parsedArgs of
                  Inl e \<Rightarrow> (caught e, w)
                | Inr a \<Rightarrow>
                    (case bookAppointment c w (get_prop a ''summary'') (get_prop a ''date'')
                            (get_prop a ''start_time'') (get_prop a ''end_time'')
                            (get_prop a ''description'') (get_prop a ''email'') of
                       (bookingResult, w') \<Rightarrow>
                         (\<lparr>toolCallId = tid,
                           result = get_prop bookingResult ''message''\<rparr>, w')))
             else (\<lparr>toolCallId = tid, result = Str (''Unknown tool: '' @ name)\<rparr>, w))"

text \<open>
  \<open>for (const toolCall of message.toolCalls)\<close> with \<open>results.push\<close>.  An exception of
  the two destructurings is caught nowhere: it ends the loop, with the results pushed so
  far lost and the remote state as the earlier invocations left it.
\<close>

fun tool_call_loop ::
  "'w collaborators \<Rightarrow> tool_call option list \<Rightarrow> tool_result list \<times> 'w
     \<Rightarrow> (js_error + tool_result list) \<times> 'w" where
  "tool_call_loop c [] (results, w) = (Inr results, w)"
| "tool_call_loop c (toolCall # rest) (results, w) =
     (case destructure_call toolCall of
        Inl e \<Rightarrow> (Inl e, w)
      | Inr (tid, name, args) \<Rightarrow>
          (case run_tool_call c w tid name args of
             (r, w') \<Rightarrow> tool_call_loop c rest (results @ [r], w')))"

text \<open>
  The handler of \<open>POST /webhook\<close>.  Its argument is \<open>message?.toolCalls\<close>: \<open>None\<close>
  when the message or its tool calls are missing.  The result is the response sent, or
  \<open>Inl\<close> the exception with which the handler ends without sending one.
\<close>

definition webhook ::
  "'w collaborators \<Rightarrow> 'w \<Rightarrow> tool_call option list option \<Rightarrow> (js_error + http_response) \<times> 'w" where
  "webhook c w toolCalls =
     (case toolCalls of
        None \<Rightarrow> (Inr \<lparr>status = 200, body = Received\<rparr>, w)
      | Some calls \<Rightarrow>
          if length calls = 0 then (Inr \<lparr>status = 200, body = Received\<rparr>, w)
          else (case tool_call_loop c calls ([], w) of
                  (Inl e, w') \<Rightarrow> (Inl e, w')
                | (Inr results, w') \<Rightarrow> (Inr \<lparr>status = 200, body = Results results\<rparr>, w')))"

section \<open>The conversation handler\<close>

text \<open>The \<open>messages\<close> property of the request body: a falsy value (absent, \<open>null\<close>), a
  value that is not an array, or an array of turns.\<close>

datatype messages_field = Absent | NotAnArray | MessageArray "chat_message list"

definition default_system :: string where
  "default_system = ''You are a professional voice secretary. Keep responses brief (1-2 sentences).''"

text \<open>\<open>messages.find(m => m.role === 'system')?.content || '...'\<close>.\<close>

definition systemMessage_of :: "chat_message list \<Rightarrow> string" where
  "systemMessage_of messages =
     (case find (\<lambda>m. role m = ''system'') messages of
        Some m \<Rightarrow> if content m = [] then default_system else content m
      | None \<Rightarrow> default_system)"

text \<open>\<open>messages.filter(m => m.role !== 'system').map(m => ({role: ..., content: m.content}))\<close>.\<close>

definition claudeMessages_of :: "chat_message list \<Rightarrow> chat_message list" where
  "claudeMessages_of messages =
     map (\<lambda>m. \<lparr>role = (if role m = ''assistant'' then ''assistant'' else ''user''),
               content = content m\<rparr>)
         (filter (\<lambda>m. role m \<noteq> ''system'') messages)"

text \<open>The names of the two tool schemas sent with every completion request.\<close>

definition tools :: "string list" where
  "tools = [''check_availability'', ''book_appointment'']"

fun is_tool_use :: "content_block \<Rightarrow> bool" where
  "is_tool_use (ToolUseBlock i n a) = True"
| "is_tool_use b = False"

fun is_text :: "content_block \<Rightarrow> bool" where
  "is_text (TextBlock t) = True"
| "is_text b = False"

text \<open>\<open>content.find(block => block.type === 'text')\<close> and the reply taken from it.\<close>

definition first_text :: "content_block list \<Rightarrow> string \<Rightarrow> string" where
  "first_text blocks fallback =
     (case find is_text blocks of Some (TextBlock t) \<Rightarrow> t | _ \<Rightarrow> fallback)"

text \<open>The tool executed for the model; \<open>toolResult\<close> stays \<open>undefined\<close> (\<open>None\<close>) for a
  name that is neither tool.\<close>

definition conversation_tool ::
  "'w collaborators \<Rightarrow> 'w \<Rightarrow> string \<Rightarrow> js_object \<Rightarrow> js_object option \<times> 'w" where
  "conversation_tool c w name args =
     (if name = ''check_availability'' then
        (case checkAvailability_v1 c w (get_prop args ''date'') (get_prop args ''start_time'')
                (get_prop args ''end_time'') of
           (isAvailable, w') \<Rightarrow>
             (Some [(''available'', Bool isAvailable),
                    (''message'',
                     Str (to_text (get_prop args ''date'') @ '' from ''
                          @ to_text (get_prop args ''start_time'') @ '' to ''
                          @ to_text (get_prop args ''end_time'')
                          @ (if isAvailable then '' is available.'' else '' is not available.'')))],
              w'))
      else if name = ''book_appointment'' then
        (case bookAppointment_v1 c w (get_prop args ''summary'') (get_prop args ''date'')
                (get_prop args ''start_time'') (get_prop args ''end_time'')
                (get_prop args ''description'') of
           (r, w') \<Rightarrow> (Some r, w'))
      else (None, w))"

text \<open>The \<open>try\<close> block of \<open>handleConversation\<close>: the first completion, the tool and the
  second completion when the first one stops for a tool, and the reply.  Any exception
  becomes the response 500.\<close>

definition converse ::
  "'w collaborators \<Rightarrow> 'w \<Rightarrow> string \<Rightarrow> chat_message list \<Rightarrow> http_response \<times> 'w" where
  "converse c w systemMessage claudeMessages =
     (let caught = (\<lambda>e. \<lparr>status = 500, body = ApiError (message e)\<rparr>);
          reply = (\<lambda>t. \<lparr>status = 200, body = Choices t\<rparr>);
          turns = map (\<lambda>m. \<lparr>m_role = role m, m_content = Text (content m)\<rparr>) claudeMessages
      in case messages_create c w
                \<lparr>q_max_tokens = 200, q_system = systemMessage, q_messages = turns, q_tools = tools\<rparr> of
           (Inl e, w1) \<Rightarrow> (caught e, w1)
         | (Inr response, w1) \<Rightarrow>
             if stop_reason response = ''tool_use'' then
               (case find is_tool_use (r_content response) of
                  Some (ToolUseBlock tool_use_id name args) \<Rightarrow>
                    (case conversation_tool c w1 name args of
                       (toolResult, w2) \<Rightarrow>
                         (case messages_create c w2
                                 \<lparr>q_max_tokens = 150, q_system = systemMessage,
                                  q_messages = turns @
                                    [\<lparr>m_role = ''assistant'', m_content = Blocks (r_content response)\<rparr>,
                                     \<lparr>m_role = ''user'',
                                      m_content = Blocks [ToolResultBlock tool_use_id toolResult]\<rparr>],
                                  q_tools = tools\<rparr> of
                            (Inl e, w3) \<Rightarrow> (caught e, w3)
                          | (Inr finalResponse, w3) \<Rightarrow>
                              (reply (first_text (r_content finalResponse) ''Done!''), w3)))
                | _ \<Rightarrow>
                    (caught (TypeError ''Cannot read properties of undefined (reading 'name')''), w1))
             else (reply (first_text (r_content response) ''I'm here to help!''), w1))"

text \<open>\<open>handleConversation\<close>: the two validations, each answered 400 before the \<open>try\<close>
  block is entered.\<close>

definition handleConversation ::
  "'w collaborators \<Rightarrow> 'w \<Rightarrow> messages_field \<Rightarrow> http_response \<times> 'w" where
  "handleConversation c w field =
     (case field of
        MessageArray messages \<Rightarrow>
          if length messages = 0
          then (\<lparr>status = 400, body = ErrorMessage ''No valid messages provided''\<rparr>, w)
          else
            (let systemMessage = systemMessage_of messages;
                 claudeMessages = claudeMessages_of messages
             in if length claudeMessages = 0
                then (\<lparr>status = 400,
                       body = ErrorMessage ''At least one non-system message required''\<rparr>, w)
                else converse c w systemMessage claudeMessages)
      | _ \<Rightarrow> (\<lparr>status = 400, body = ErrorMessage ''No valid messages provided''\<rparr>, w))"

text \<open>The turns a payload yields, for stating what the handler does with a payload that
  yields none.\<close>

definition usable_turns :: "messages_field \<Rightarrow> chat_message list" where
  "usable_turns field = (case field of MessageArray messages \<Rightarrow> claudeMessages_of messages | _ \<Rightarrow> [])"

section \<open>Concrete collaborators\<close>

text \<open>
  Collaborators for evaluating the handlers on concrete requests.  The state of the remote
  services is the number of remote operations performed so far.  The calendar returns the
  given events whatever the bounds of the query; inserting an event and asking for a
  completion fail; \<open>JSON.parse\<close> accepts the empty object only, and rejects every other
  text with the message the engine has for the text \<open>{\<close>; the \<open>Date\<close> constructor knows
  a few date-time texts of 6 January 2025 (a text without an offset is read in a local time
  five hours behind UTC).
\<close>

definition dates_2025_01_06 :: "string \<Rightarrow> instant option" where
  "dates_2025_01_06 = map_of
     [(''2025-01-06T13:00:00-05:00'', 1736186400000),
      (''2025-01-06T14:00:00-05:00'', 1736190000000),
      (''2025-01-06T14:30:00-05:00'', 1736191800000),
      (''2025-01-06T15:00:00-05:00'', 1736193600000),
      (''2025-01-06T14:00:00'', 1736190000000),
      (''2025-01-06T15:00:00'', 1736193600000)]"

definition calendar_with :: "cal_event list \<Rightarrow> nat collaborators" where
  "calendar_with items =
     \<lparr>newDate = dates_2025_01_06,
      JSON_parse = (\<lambda>s. if s = ''{}'' then Inr (Fields [])
                         else Inl (SyntaxError ''Expected property name or '}' in JSON at position 1 (line 1 column 2)'')),
      events_list = (\<lambda>w r. (Inr (Some items), Suc w)),
      events_insert = (\<lambda>w r. (Inl (Error ''Calendar usage limits exceeded.''), Suc w)),
      messages_create = (\<lambda>w r. (Inl (Error ''Connection error.''), Suc w)),
      GOOGLE_CALENDAR_ID = None\<rparr>"

definition event_13_to_14 :: cal_event where
  "event_13_to_14 =
     \<lparr>ev_summary = Some ''Haircut'',
      ev_start = \<lparr>dateTime = Some ''2025-01-06T13:00:00-05:00'', date_only = None\<rparr>,
      ev_end = \<lparr>dateTime = Some ''2025-01-06T14:00:00-05:00'', date_only = None\<rparr>\<rparr>"

section \<open>Facts about digits, padding and the two patterns\<close>

lemma digit_char_digit_val: "is_digit c \<Longrightarrow> digit_char (digit_val c) = c"
  by (simp add: is_digit_def digit_char_def digit_val_def)

lemma digit_val_less: "is_digit c \<Longrightarrow> digit_val c < 10"
  by (auto simp: is_digit_def digit_val_def)

lemma digit_val_digit_char: "d < 10 \<Longrightarrow> digit_val (digit_char d) = d"
  by (simp add: digit_char_def digit_val_def)

lemma is_digit_digit_char: "d < 10 \<Longrightarrow> is_digit (digit_char d)"
  by (simp add: digit_char_def is_digit_def)

lemma char_of_48: "char_of (48::nat) = CHR ''0''"
  by code_simp

lemma parseInt_1: "parseInt [c] = digit_val c"
  by (simp add: parseInt_def)

lemma parseInt_2: "parseInt [c, d] = 10 * digit_val c + digit_val d"
  by (simp add: parseInt_def)

lemma toString_lt10: "n < 10 \<Longrightarrow> toString n = [digit_char n]"
  by (simp add: toString.simps)

lemma toString_lt100: "10 \<le> n \<Longrightarrow> n < 100 \<Longrightarrow> toString n = [digit_char (n div 10), digit_char (n mod 10)]"
  by (subst toString.simps) (simp add: toString_lt10)

lemma pad_hour_lt100:
  "n < 100 \<Longrightarrow> padStart0 2 (toString n) = [digit_char (n div 10), digit_char (n mod 10)]"
  by (cases "n < 10") (simp_all add: toString_lt10 toString_lt100 padStart0_def digit_char_def char_of_48)

lemma pad_hour_1: "is_digit h1 \<Longrightarrow> padStart0 2 (toString (parseInt [h1])) = [CHR ''0'', h1]"
  by (simp add: parseInt_1 toString_lt10 digit_val_less padStart0_def digit_char_digit_val)

lemma pad_hour_2:
  assumes "is_digit h1" "is_digit h2"
  shows "padStart0 2 (toString (parseInt [h1, h2])) = [h1, h2]"
proof -
  have a: "digit_val h1 < 10" and b: "digit_val h2 < 10"
    using assms by (simp_all add: digit_val_less)
  have "parseInt [h1, h2] < 100" using a b by (simp add: parseInt_2)
  moreover have "parseInt [h1, h2] div 10 = digit_val h1" using b by (simp add: parseInt_2)
  moreover have "parseInt [h1, h2] mod 10 = digit_val h2" using b by (simp add: parseInt_2)
  ultimately show ?thesis using assms by (simp add: pad_hour_lt100 digit_char_digit_val)
qed

lemma period_not_digit_space:
  "s \<in> am_forms \<union> pm_forms \<Longrightarrow> \<not> is_digit (hd s) \<and> \<not> is_space (hd s) \<and> hd s \<noteq> CHR '':''"
  by (auto simp: am_forms_def pm_forms_def is_digit_def is_space_def)

lemma match_period_forms:
  "s \<in> am_forms \<union> pm_forms \<Longrightarrow> match_period (s @ post) = Some s"
  by (auto simp: am_forms_def pm_forms_def)

lemma char_of_AMP:
  "char_of (65::nat) = CHR ''A''" "char_of (77::nat) = CHR ''M''" "char_of (80::nat) = CHR ''P''"
  by code_simp+

lemma toUpperCase_forms:
  "s \<in> am_forms \<Longrightarrow> toUpperCase s = ''AM''" "s \<in> pm_forms \<Longrightarrow> toUpperCase s = ''PM''"
  by (auto simp: am_forms_def pm_forms_def toUpperCase_def to_upper_def char_of_AMP)

lemma space_not_digit: "is_space c \<Longrightarrow> \<not> is_digit c \<and> c \<noteq> CHR '':''"
  by (auto simp: is_digit_def is_space_def)

lemma match_ws_period_forms:
  "list_all is_space ws \<Longrightarrow> s \<in> am_forms \<union> pm_forms \<Longrightarrow> match_ws_period (ws @ s @ post) = Some s"
proof (induction ws)
  case Nil
  then obtain a m where "s = [a, m]" by (auto simp: am_forms_def pm_forms_def)
  with Nil period_not_digit_space [of s] match_period_forms [of s post] show ?case by simp
next
  case (Cons c ws)
  then show ?case by (simp add: orelse_def)
qed

lemma match_minutes_absent:
  assumes "list_all is_space ws" "s \<in> am_forms \<union> pm_forms"
  shows "match_minutes (ws @ s @ post) = Some (None, s)"
proof -
  obtain a m where s: "s = [a, m]" using assms(2) by (auto simp: am_forms_def pm_forms_def)
  have nd: "\<not> is_digit (hd (ws @ s @ post))"
    using assms period_not_digit_space [of s] space_not_digit s by (cases ws) auto
  obtain c1 c2 r where shape: "ws @ s @ post = c1 # c2 # r"
    using s by (cases ws; cases "tl ws") auto
  have "match_minutes (c1 # c2 # r) = Some (None, s)"
    using nd match_ws_period_forms [OF assms, of post] shape by (simp add: orelse_def)
  then show ?thesis using shape by simp
qed

lemma match_minutes_present:
  assumes "is_digit m1" "is_digit m2" "list_all is_space ws" "s \<in> am_forms \<union> pm_forms"
  shows "match_minutes (m1 # m2 # ws @ s @ post) = Some (Some [m1, m2], s)"
  using assms match_ws_period_forms [of ws s post] by (simp add: orelse_def)

lemma match_colon_absent:
  assumes "list_all is_space ws" "s \<in> am_forms \<union> pm_forms"
  shows "match_colon (ws @ s @ post) = Some (None, s)"
proof -
  obtain a m where s: "s = [a, m]" using assms(2) by (auto simp: am_forms_def pm_forms_def)
  have nc: "hd (ws @ s @ post) \<noteq> CHR '':''"
    using assms period_not_digit_space [of s] space_not_digit s by (cases ws) auto
  obtain c r where shape: "ws @ s @ post = c # r" using s by (cases ws) auto
  have "match_colon (c # r) = Some (None, s)"
    using nc match_minutes_absent [OF assms, of post] shape by (simp add: orelse_def)
  then show ?thesis using shape by simp
qed

lemma match_colon_minutes:
  assumes "is_digit m1" "is_digit m2" "list_all is_space ws" "s \<in> am_forms \<union> pm_forms"
  shows "match_colon (CHR '':'' # m1 # m2 # ws @ s @ post) = Some (Some [m1, m2], s)"
  using match_minutes_present [OF assms, of post] by (simp add: orelse_def)

lemma match_ampm_at_hour:
  assumes h: "is_hour_text h" and nd: "\<not> is_digit (hd tl0)" and ne: "tl0 \<noteq> []"
    and mc: "match_colon tl0 = Some (m, p)"
  shows "match_ampm_at (h @ tl0) = Some (h, m, p)"
proof -
  obtain c r where tl0: "tl0 = c # r" using ne by (cases tl0) auto
  from h consider h1 where "h = [h1]" "is_digit h1" | h1 h2 where "h = [h1, h2]" "is_digit h1" "is_digit h2"
    by (cases h; cases "tl h") (auto simp: is_hour_text_def)
  then show ?thesis
  proof cases
    case 1
    then show ?thesis using nd mc tl0 by (simp add: orelse_def)
  next
    case 2
    then show ?thesis using mc by (simp add: orelse_def)
  qed
qed

lemma match_ampm_at_imp: "match_ampm_at t = Some g \<Longrightarrow> match_ampm t = Some g"
  by (cases t) (simp_all add: orelse_def)

lemma match_ampm_suffix: "match_ampm_at t = Some g \<Longrightarrow> match_ampm (pre @ t) \<noteq> None"
proof (induction pre)
  case Nil
  then show ?case using match_ampm_at_imp [of t g] by simp
next
  case (Cons c pre)
  then show ?case by (cases "match_ampm_at (c # pre @ t)") (simp_all add: orelse_def)
qed

lemma match_hhmm_chars:
  "match_hhmm t = Some x \<Longrightarrow> list_all (\<lambda>c. is_digit c \<or> c = CHR '':'') t"
  by (induction t rule: match_hhmm.induct) (auto split: if_splits)

lemma match_period_letter:
  "match_period s = Some p \<Longrightarrow> \<exists>c \<in> set s. \<not> is_digit c \<and> c \<noteq> CHR '':''"
  by (induction s rule: match_period.induct) (auto split: if_splits simp: is_digit_def)

lemma match_ws_period_letter:
  "match_ws_period s = Some p \<Longrightarrow> \<exists>c \<in> set s. \<not> is_digit c \<and> c \<noteq> CHR '':''"
proof (induction s)
  case Nil
  then show ?case by simp
next
  case (Cons c cs)
  then show ?case
    using match_period_letter [of "c # cs" p]
    by (auto simp: orelse_def split: if_splits option.splits)
qed

lemma match_minutes_letter:
  assumes "match_minutes s = Some g"
  shows "\<exists>c \<in> set s. \<not> is_digit c \<and> c \<noteq> CHR '':''"
proof -
  consider "s = []" | v where "s = [v]" | m1 m2 rest where "s = m1 # m2 # rest"
    by (cases s; cases "tl s") auto
  then show ?thesis
  proof cases
    case 1
    then show ?thesis using assms by simp
  next
    case 2
    then show ?thesis using assms match_ws_period_letter [of "[v]"] by fastforce
  next
    case 3
    then show ?thesis
      using assms match_ws_period_letter [of rest] match_ws_period_letter [of "m1 # m2 # rest"]
      by (fastforce simp: orelse_def split: if_splits option.splits)
  qed
qed

lemma match_colon_letter:
  "match_colon s = Some g \<Longrightarrow> \<exists>c \<in> set s. \<not> is_digit c \<and> c \<noteq> CHR '':''"
proof (cases s)
  case Nil
  then show "match_colon s = Some g \<Longrightarrow> ?thesis" by simp
next
  case (Cons c rest)
  then show "match_colon s = Some g \<Longrightarrow> ?thesis"
    using match_minutes_letter [of rest] match_minutes_letter [of "c # rest"]
    by (fastforce simp: orelse_def split: if_splits option.splits)
qed

lemma match_ampm_at_letter:
  "match_ampm_at s = Some g \<Longrightarrow> \<exists>c \<in> set s. \<not> is_digit c \<and> c \<noteq> CHR '':''"
proof (induction s rule: match_ampm_at.induct)
  case (1 h1 h2 rest)
  then show ?case
    using match_colon_letter [of rest] match_colon_letter [of "h2 # rest"]
    by (fastforce simp: orelse_def split: if_splits option.splits)
next
  case (2 h1)
  then show ?case by (auto split: if_splits)
next
  case 3
  then show ?case by simp
qed

lemma match_ampm_letter:
  "match_ampm s = Some g \<Longrightarrow> \<exists>c \<in> set s. \<not> is_digit c \<and> c \<noteq> CHR '':''"
proof (induction s)
  case Nil
  then show ?case by simp
next
  case (Cons c cs)
  then show ?case
    using match_ampm_at_letter [of "c # cs"]
    by (fastforce simp: orelse_def split: option.splits)
qed

lemma ampm_excludes_hhmm: "match_ampm t = Some g \<Longrightarrow> hhmm_branch t = None"
proof -
  assume a: "match_ampm t = Some g"
  have "match_hhmm t = None"
  proof (cases "match_hhmm t")
    case None then show ?thesis .
  next
    case (Some x)
    then show ?thesis
      using match_hhmm_chars [of t x] match_ampm_letter [OF a] by (auto simp: list_all_iff)
  qed
  then show ?thesis by (simp add: hhmm_branch_def)
qed

lemma normalizeTime_ampm: "match_ampm t = Some g \<Longrightarrow> normalizeTime t = Inr (from_ampm g)"
  by (simp add: normalizeTime_def ampm_excludes_hhmm)

lemma match_ampm_at_twelve_hour_text:
  assumes "is_hour_text h" "is_minutes_opt m" "list_all is_space ws" "sfx \<in> am_forms \<union> pm_forms"
  shows "match_ampm_at (twelve_hour_text h m ws sfx @ post) = Some (h, m, sfx)"
proof (cases m)
  case None
  obtain a b where s: "sfx = [a, b]" using assms(4) by (auto simp: am_forms_def pm_forms_def)
  have nd: "\<not> is_digit (hd (ws @ sfx @ post))"
    using assms(3,4) period_not_digit_space [of sfx] space_not_digit s by (cases ws) auto
  have ne: "ws @ sfx @ post \<noteq> []" using s by simp
  show ?thesis
    using match_ampm_at_hour [OF assms(1) nd ne match_colon_absent [OF assms(3,4)]] None
    by (simp add: twelve_hour_text_def)
next
  case (Some mm)
  then obtain m1 m2 where mm: "mm = [m1, m2]" "is_digit m1" "is_digit m2"
    using assms(2) by (cases mm; cases "tl mm") (auto simp: is_minutes_opt_def)
  have nd: "\<not> is_digit (hd (CHR '':'' # m1 # m2 # ws @ sfx @ post))"
    by (simp add: is_digit_def)
  show ?thesis
    using match_ampm_at_hour [OF assms(1) nd _ match_colon_minutes [OF mm(2,3) assms(3,4)]]
      Some mm
    by (simp add: twelve_hour_text_def)
qed

lemma normalizeTime_twelve_hour_text:
  assumes "is_hour_text h" "is_minutes_opt m" "list_all is_space ws" "sfx \<in> am_forms \<union> pm_forms"
  shows "normalizeTime (twelve_hour_text h m ws sfx @ post) = Inr (from_ampm (h, m, sfx))"
  using match_ampm_at_imp [OF match_ampm_at_twelve_hour_text [OF assms]] by (rule normalizeTime_ampm)

lemma toString_nonempty: "toString n \<noteq> []"
  by (subst toString.simps) simp

lemma padStart0_ge10: "10 \<le> n \<Longrightarrow> padStart0 2 (toString n) = toString n"
proof -
  assume "10 \<le> n"
  then have "toString n = toString (n div 10) @ [digit_char (n mod 10)]"
    by (subst toString.simps) simp
  then have "2 \<le> length (toString n)"
    using toString_nonempty [of "n div 10"] by (cases "toString (n div 10)") simp_all
  then show ?thesis by (simp add: padStart0_def)
qed

lemma match_ampm_at_no_digit: "\<not> is_digit c \<Longrightarrow> match_ampm_at (c # cs) = None"
  by (cases cs) (simp_all add: orelse_def)

lemma match_ampm_skip_prefix:
  "list_all (\<lambda>c. \<not> is_digit c) pre \<Longrightarrow> match_ampm (pre @ t) = match_ampm t"
  by (induction pre) (simp_all add: match_ampm_at_no_digit orelse_def)

lemma normalizeTime_hhmm_1:
  assumes "is_digit h1" "is_digit m1" "is_digit m2"
  shows "normalizeTime [h1, CHR '':'', m1, m2] = Inr [CHR ''0'', h1, CHR '':'', m1, m2]"
proof -
  have "parseInt [h1] < 24" using assms(1) digit_val_less [of h1] by (simp add: parseInt_1)
  then show ?thesis using assms by (simp add: normalizeTime_def hhmm_branch_def pad_hour_1)
qed

lemma normalizeTime_hhmm_2:
  assumes "is_digit h1" "is_digit h2" "is_digit m1" "is_digit m2" "parseInt [h1, h2] < 24"
  shows "normalizeTime [h1, h2, CHR '':'', m1, m2] = Inr [h1, h2, CHR '':'', m1, m2]"
  using assms by (simp add: normalizeTime_def hhmm_branch_def pad_hour_2)

section \<open>The time normalizer: properties\<close>

text \<open>
  C5.  \<open>normalizeTime\<close> returns \<open>19:00\<close> for \<open>7 PM\<close>, \<open>00:00\<close> for \<open>12 AM\<close> and
  \<open>09:05\<close> for \<open>9:05\<close>, and throws the invalid-format error for \<open>25:00\<close>.  For every
  text of the 12-hour form (an hour of one or two digits, optional \<open>:MM\<close>, optional
  whitespace, a suffix in any spelling) the result is the hour plus 12 when the suffix is
  PM and the hour is not 12, the hour 0 when the suffix is AM and the hour is 12, the hour
  itself otherwise, padded to two digits, followed by the minutes, \<open>00\<close> when there are
  none.
\<close>

theorem normalizeTime_examples_and_12h_rule:
  "normalizeTime ''7 PM'' = Inr ''19:00''
   \<and> normalizeTime ''12 AM'' = Inr ''00:00''
   \<and> normalizeTime ''9:05'' = Inr ''09:05''
   \<and> normalizeTime ''25:00'' = Inl (Error ''Invalid time format: 25:00. Expected HH:MM or H:MM AM/PM'')
   \<and> (is_hour_text h \<and> is_minutes_opt m \<and> list_all is_space ws \<and> sfx \<in> pm_forms \<longrightarrow>
        normalizeTime (twelve_hour_text h m ws sfx) =
          Inr (padStart0 2 (toString (if parseInt h \<noteq> 12 then parseInt h + 12 else parseInt h))
               @ '':'' @ (case m of Some mm \<Rightarrow> mm | None \<Rightarrow> ''00'')))
   \<and> (is_hour_text h \<and> is_minutes_opt m \<and> list_all is_space ws \<and> sfx \<in> am_forms \<longrightarrow>
        normalizeTime (twelve_hour_text h m ws sfx) =
          Inr (padStart0 2 (toString (if parseInt h = 12 then 0 else parseInt h))
               @ '':'' @ (case m of Some mm \<Rightarrow> mm | None \<Rightarrow> ''00'')))"
proof -
  have e1: "normalizeTime ''7 PM'' = Inr ''19:00''" by code_simp
  have e2: "normalizeTime ''12 AM'' = Inr ''00:00''" by code_simp
  have e3: "normalizeTime ''9:05'' = Inr ''09:05''" by code_simp
  have e4: "normalizeTime ''25:00'' = Inl (Error ''Invalid time format: 25:00. Expected HH:MM or H:MM AM/PM'')"
    by code_simp
  have pm: "normalizeTime (twelve_hour_text h m ws sfx) =
              Inr (padStart0 2 (toString (if parseInt h \<noteq> 12 then parseInt h + 12 else parseInt h))
                   @ '':'' @ (case m of Some mm \<Rightarrow> mm | None \<Rightarrow> ''00''))"
    if "is_hour_text h" "is_minutes_opt m" "list_all is_space ws" "sfx \<in> pm_forms"
    using normalizeTime_twelve_hour_text [OF that(1,2,3), of sfx "[]"] that(4)
    by (simp add: from_ampm_def adjust_hour_def toUpperCase_forms)
  have am: "normalizeTime (twelve_hour_text h m ws sfx) =
              Inr (padStart0 2 (toString (if parseInt h = 12 then 0 else parseInt h))
                   @ '':'' @ (case m of Some mm \<Rightarrow> mm | None \<Rightarrow> ''00''))"
    if "is_hour_text h" "is_minutes_opt m" "list_all is_space ws" "sfx \<in> am_forms"
    using normalizeTime_twelve_hour_text [OF that(1,2,3), of sfx "[]"] that(4)
    by (simp add: from_ampm_def adjust_hour_def toUpperCase_forms)
  show ?thesis using e1 e2 e3 e4 pm am by blast
qed

theorem normalizeTime_examples_and_12h_rule_witness:
  "is_hour_text ''07'' \<and> is_minutes_opt (Some ''30'') \<and> list_all is_space '' ''
   \<and> ''pm'' \<in> pm_forms
   \<and> twelve_hour_text ''07'' (Some ''30'') '' '' ''pm'' = ''07:30 pm''
   \<and> normalizeTime ''07:30 pm'' = Inr ''19:30''
   \<and> is_hour_text ''12'' \<and> is_minutes_opt None \<and> list_all is_space [] \<and> ''AM'' \<in> am_forms
   \<and> twelve_hour_text ''12'' None [] ''AM'' = ''12AM''
   \<and> normalizeTime ''12AM'' = Inr ''00:00''"
proof -
  have a: "is_hour_text ''07''" "is_minutes_opt (Some ''30'')" "list_all is_space '' ''"
    "''pm'' \<in> pm_forms"
    by (simp_all add: is_hour_text_def is_minutes_opt_def is_digit_def is_space_def pm_forms_def)
  have b: "is_hour_text ''12''" "is_minutes_opt None" "list_all is_space []" "''AM'' \<in> am_forms"
    by (simp_all add: is_hour_text_def is_minutes_opt_def is_digit_def am_forms_def)
  have c: "twelve_hour_text ''07'' (Some ''30'') '' '' ''pm'' = ''07:30 pm''"
    "twelve_hour_text ''12'' None [] ''AM'' = ''12AM''"
    by (simp_all add: twelve_hour_text_def)
  have d: "padStart0 2 (toString (if parseInt ''07'' \<noteq> 12 then parseInt ''07'' + 12 else parseInt ''07'')) = ''19''"
    "padStart0 2 (toString (if parseInt ''12'' = 12 then 0 else parseInt ''12'')) = ''00''"
    by code_simp+
  have "normalizeTime (twelve_hour_text ''07'' (Some ''30'') '' '' ''pm'') =
          Inr (padStart0 2 (toString (if parseInt ''07'' \<noteq> 12 then parseInt ''07'' + 12 else parseInt ''07''))
               @ '':'' @ (case Some ''30'' of Some mm \<Rightarrow> mm | None \<Rightarrow> ''00''))"
    using normalizeTime_examples_and_12h_rule [of "''07''" "Some ''30''" "'' ''" "''pm''"] a by blast
  then have p: "normalizeTime ''07:30 pm'' = Inr ''19:30''" unfolding c d by simp
  have "normalizeTime (twelve_hour_text ''12'' None [] ''AM'') =
          Inr (padStart0 2 (toString (if parseInt ''12'' = 12 then 0 else parseInt ''12''))
               @ '':'' @ (case None of Some mm \<Rightarrow> mm | None \<Rightarrow> ''00''))"
    using normalizeTime_examples_and_12h_rule [of "''12''" None "[]" "''AM''"] b by blast
  then have q: "normalizeTime ''12AM'' = Inr ''00:00''" unfolding c d by simp
  show ?thesis using a b c p q by blast
qed

text \<open>
  C9.  The 12-hour branch of \<open>normalizeTime\<close> checks no range and its pattern is not
  anchored.  Whenever the pattern matches with an hour above 12 and the suffix PM, the
  function returns the decimal text of the hour plus 12, which is 24 or more, then the
  minutes; \<open>13:30 PM\<close> gives \<open>25:30\<close>.  A text of the 12-hour form is accepted with
  any text before and after it, and when the text before it holds no digit the result is
  the one computed from that form.
\<close>

theorem normalizeTime_no_hour_range_check:
  "(match_ampm time = Some (h, m, p) \<and> toUpperCase p = ''PM'' \<and> 12 < parseInt h \<longrightarrow>
      normalizeTime time =
        Inr (toString (parseInt h + 12) @ '':'' @ (case m of Some mm \<Rightarrow> mm | None \<Rightarrow> ''00''))
      \<and> 24 \<le> parseInt h + 12)
   \<and> normalizeTime ''13:30 PM'' = Inr ''25:30''
   \<and> (is_hour_text h' \<and> is_minutes_opt m' \<and> list_all is_space ws \<and> sfx \<in> am_forms \<union> pm_forms \<longrightarrow>
        (\<exists>r. normalizeTime (pre @ twelve_hour_text h' m' ws sfx @ post) = Inr r)
      \<and> (list_all (\<lambda>c. \<not> is_digit c) pre \<longrightarrow>
            normalizeTime (pre @ twelve_hour_text h' m' ws sfx @ post) = Inr (from_ampm (h', m', sfx))))"
proof -
  let ?t = "twelve_hour_text h' m' ws sfx @ post"
  have a: "normalizeTime time =
           Inr (toString (parseInt h + 12) @ '':'' @ (case m of Some mm \<Rightarrow> mm | None \<Rightarrow> ''00''))
         \<and> 24 \<le> parseInt h + 12"
    if "match_ampm time = Some (h, m, p)" "toUpperCase p = ''PM''" "12 < parseInt h"
    using normalizeTime_ampm [OF that(1)] that(2,3)
    by (simp add: from_ampm_def adjust_hour_def padStart0_ge10)
  have b: "normalizeTime ''13:30 PM'' = Inr ''25:30''" by code_simp
  have c: "(\<exists>r. normalizeTime (pre @ ?t) = Inr r)
      \<and> (list_all (\<lambda>c. \<not> is_digit c) pre \<longrightarrow> normalizeTime (pre @ ?t) = Inr (from_ampm (h', m', sfx)))"
    if form: "is_hour_text h'" "is_minutes_opt m'" "list_all is_space ws" "sfx \<in> am_forms \<union> pm_forms"
  proof -
    have at: "match_ampm_at ?t = Some (h', m', sfx)"
      using match_ampm_at_twelve_hour_text [OF form] .
    have "match_ampm (pre @ ?t) \<noteq> None"
      using match_ampm_suffix [OF at] .
    then obtain g where "match_ampm (pre @ ?t) = Some g" by blast
    then have c1: "\<exists>r. normalizeTime (pre @ ?t) = Inr r"
      using normalizeTime_ampm by blast
    have c2: "normalizeTime (pre @ ?t) = Inr (from_ampm (h', m', sfx))"
      if "list_all (\<lambda>c. \<not> is_digit c) pre"
    proof -
      have "match_ampm (pre @ ?t) = Some (h', m', sfx)"
        using match_ampm_skip_prefix [OF that, of ?t] match_ampm_at_imp [OF at] by simp
      then show ?thesis by (rule normalizeTime_ampm)
    qed
    show ?thesis using c1 c2 by blast
  qed
  show ?thesis using a b c by blast
qed

theorem normalizeTime_no_hour_range_check_witness:
  "match_ampm ''13:30 PM'' = Some (''13'', Some ''30'', ''PM'') \<and> toUpperCase ''PM'' = ''PM''
   \<and> 12 < parseInt ''13''
   \<and> normalizeTime ''13:30 PM'' = Inr (toString (parseInt ''13'' + 12) @ '':30'')
   \<and> toString (parseInt ''13'' + 12) = ''25''
   \<and> is_hour_text ''7'' \<and> is_minutes_opt None \<and> list_all is_space '' '' \<and> ''PM'' \<in> am_forms \<union> pm_forms
   \<and> list_all (\<lambda>c. \<not> is_digit c) ''call me at ''
   \<and> normalizeTime ''call me at 7 PM please'' = Inr ''19:00''"
proof -
  have a: "match_ampm ''13:30 PM'' = Some (''13'', Some ''30'', ''PM'')" by code_simp
  have b: "toUpperCase ''PM'' = ''PM''" by code_simp
  have c: "12 < parseInt ''13''" by (simp add: parseInt_def digit_val_def)
  have d: "is_hour_text ''7''" "is_minutes_opt None" "list_all is_space '' ''"
    by (simp_all add: is_hour_text_def is_minutes_opt_def is_digit_def is_space_def)
  have e: "''PM'' \<in> am_forms \<union> pm_forms" by (simp add: pm_forms_def)
  have f: "list_all (\<lambda>c. \<not> is_digit c) ''call me at ''" by (simp add: is_digit_def)
  have g: "''call me at '' @ twelve_hour_text ''7'' None '' '' ''PM'' @ '' please'' = ''call me at 7 PM please''"
    by (simp add: twelve_hour_text_def)
  have h: "from_ampm (''7'', None, ''PM'') = ''19:00''" by code_simp
  have k: "toString (parseInt ''13'' + 12) = ''25''" by code_simp
  note inst = normalizeTime_no_hour_range_check
    [of "''13:30 PM''" "''13''" "Some ''30''" "''PM''" "''7''" None "'' ''" "''PM''"
        "''call me at ''" "'' please''"]
  have "normalizeTime ''13:30 PM'' =
          Inr (toString (parseInt ''13'' + 12) @ '':'' @ (case Some ''30'' of Some mm \<Rightarrow> mm | None \<Rightarrow> ''00''))"
    using inst a b c by blast
  then have r: "normalizeTime ''13:30 PM'' = Inr (toString (parseInt ''13'' + 12) @ '':30'')" by simp
  have "normalizeTime (''call me at '' @ twelve_hour_text ''7'' None '' '' ''PM'' @ '' please'')
          = Inr (from_ampm (''7'', None, ''PM''))"
    using inst d e f by blast
  then have t: "normalizeTime ''call me at 7 PM please'' = Inr ''19:00''"
    unfolding g h .
  show ?thesis using a b c d e f k r t by blast
qed

text \<open>
  C10.  \<open>normalizeTime\<close> never looks at the value of the minutes.  For every input
  \<open>H:MM\<close> the result is the input with the hour padded, and for every input \<open>HH:MM\<close>
  with an hour below 24 the result is the input itself, whatever the two minute digits
  are; \<open>10:99\<close> is returned as \<open>10:99\<close>.
\<close>

theorem normalizeTime_minutes_unchecked:
  "(is_digit h1 \<and> is_digit m1 \<and> is_digit m2 \<longrightarrow>
      normalizeTime [h1, CHR '':'', m1, m2] = Inr [CHR ''0'', h1, CHR '':'', m1, m2])
   \<and> (is_digit h1 \<and> is_digit h2 \<and> is_digit m1 \<and> is_digit m2 \<and> parseInt [h1, h2] < 24 \<longrightarrow>
        normalizeTime [h1, h2, CHR '':'', m1, m2] = Inr [h1, h2, CHR '':'', m1, m2])
   \<and> normalizeTime ''10:99'' = Inr ''10:99''"
proof -
  have c: "normalizeTime ''10:99'' = Inr ''10:99''" by code_simp
  show ?thesis
    using normalizeTime_hhmm_1 [of h1 m1 m2] normalizeTime_hhmm_2 [of h1 h2 m1 m2] c by blast
qed

theorem normalizeTime_minutes_unchecked_witness:
  "is_digit CHR ''2'' \<and> is_digit CHR ''3'' \<and> is_digit CHR ''7'' \<and> is_digit CHR ''5''
   \<and> parseInt ''23'' < 24
   \<and> normalizeTime ''2:75'' = Inr ''02:75'' \<and> normalizeTime ''23:75'' = Inr ''23:75''"
proof -
  have d: "is_digit CHR ''2''" "is_digit CHR ''3''" "is_digit CHR ''7''" "is_digit CHR ''5''"
    by (simp_all add: is_digit_def)
  have p: "parseInt ''23'' < 24" by (simp add: parseInt_def digit_val_def)
  note inst = normalizeTime_minutes_unchecked [of "CHR ''2''" "CHR ''7''" "CHR ''5''" "CHR ''3''"]
  have a: "normalizeTime ''2:75'' = Inr ''02:75''" using inst d by simp
  have b: "normalizeTime ''23:75'' = Inr ''23:75''" using inst d p by simp
  show ?thesis using d p a b by blast
qed

text \<open>
  C2.  An input that matches none of the accepted patterns must fail with an error that
  names it, and must never be returned as if it were a time.  \<open>normalizeTime\<close> does fail
  so on \<open>noon\<close>; \<open>formatTime\<close> of \<open>src/index.js\<close> returns \<open>noon\<close> as it came.
\<close>

theorem formatTime_returns_unmatched_input:
  "formatTime ''noon'' = ''noon''
   \<and> normalizeTime ''noon'' = Inl (Error ''Invalid time format: noon. Expected HH:MM or H:MM AM/PM'')"
  by code_simp

text \<open>
  C6.  \<open>normalizeTime\<close> is not idempotent: it succeeds on \<open>13:30 PM\<close> with \<open>25:30\<close>,
  and fails on \<open>25:30\<close>.
\<close>

theorem normalizeTime_not_idempotent:
  "normalizeTime ''13:30 PM'' = Inr ''25:30''
   \<and> normalizeTime ''25:30'' = Inl (Error ''Invalid time format: 25:30. Expected HH:MM or H:MM AM/PM'')"
  by code_simp

section \<open>The time normalizer: what does hold of rejection and idempotence\<close>

lemma normalizeTime_rejects_unmatched:
  "hhmm_branch time = None \<Longrightarrow> match_ampm time = None \<Longrightarrow>
   normalizeTime time = Inl (Error (''Invalid time format: '' @ time @ ''. Expected HH:MM or H:MM AM/PM''))"
  by (simp add: normalizeTime_def)

lemma normalizeTime_accepts_only_matched:
  "normalizeTime time = Inr r \<Longrightarrow> hhmm_branch time \<noteq> None \<or> match_ampm time \<noteq> None"
  by (auto simp: normalizeTime_def split: option.splits)

text \<open>The groups of a match of the 12-hour pattern are an hour of one or two digits and,
  when present, two minute digits.\<close>

lemma match_minutes_shape: "match_minutes s = Some (m, p) \<Longrightarrow> is_minutes_opt m"
proof -
  assume a: "match_minutes s = Some (m, p)"
  consider "s = []" | v where "s = [v]" | m1 m2 rest where "s = m1 # m2 # rest"
    by (cases s; cases "tl s") auto
  then show ?thesis
  proof cases
    case 1
    then show ?thesis using a by simp
  next
    case 2
    then show ?thesis using a by (auto simp: is_minutes_opt_def)
  next
    case 3
    then show ?thesis using a
      by (auto simp: orelse_def is_minutes_opt_def split: if_splits option.splits)
  qed
qed

lemma match_colon_shape: "match_colon s = Some (m, p) \<Longrightarrow> is_minutes_opt m"
  using match_minutes_shape
  by (cases s) (auto simp: orelse_def split: if_splits option.splits)

lemma match_ampm_at_shape:
  "match_ampm_at s = Some (h, m, p) \<Longrightarrow> is_hour_text h \<and> is_minutes_opt m"
proof -
  assume a: "match_ampm_at s = Some (h, m, p)"
  consider "s = []" | h1 where "s = [h1]" | h1 h2 rest where "s = h1 # h2 # rest"
    by (cases s; cases "tl s") auto
  then show ?thesis
  proof cases
    case 1
    then show ?thesis using a by simp
  next
    case 2
    then show ?thesis using a match_colon_shape [of "[]"]
      by (auto simp: is_hour_text_def split: if_splits)
  next
    case 3
    then show ?thesis using a match_colon_shape [of rest] match_colon_shape [of "h2 # rest"]
      by (auto simp: orelse_def is_hour_text_def split: if_splits option.splits)
  qed
qed

lemma match_ampm_shape:
  "match_ampm s = Some (h, m, p) \<Longrightarrow> is_hour_text h \<and> is_minutes_opt m"
proof (induction s)
  case Nil
  then show ?case by simp
next
  case (Cons c cs)
  then show ?case using match_ampm_at_shape [of "c # cs" h m p]
    by (auto simp: orelse_def split: option.splits)
qed

lemma match_hhmm_shape:
  "match_hhmm t = Some (h, mm) \<Longrightarrow> is_hour_text h \<and> length mm = 2 \<and> list_all is_digit mm"
  by (induction t rule: match_hhmm.induct) (auto simp: is_hour_text_def split: if_splits)

text \<open>A canonical text with an hour below 24 is returned as it is.\<close>

lemma normalizeTime_canonical:
  assumes "n < 24" "length mm = 2" "list_all is_digit mm"
  shows "normalizeTime (padStart0 2 (toString n) @ '':'' @ mm)
           = Inr (padStart0 2 (toString n) @ '':'' @ mm)"
proof -
  obtain m1 m2 where mm: "mm = [m1, m2]" "is_digit m1" "is_digit m2"
    using assms(2,3) by (cases mm; cases "tl mm") auto
  let ?h1 = "digit_char (n div 10)" and ?h2 = "digit_char (n mod 10)"
  have p: "padStart0 2 (toString n) = [?h1, ?h2]" using assms(1) by (simp add: pad_hour_lt100)
  have d: "is_digit ?h1" "is_digit ?h2" using assms(1) by (simp_all add: is_digit_digit_char)
  have "parseInt [?h1, ?h2] = n"
    using assms(1) by (simp add: parseInt_2 digit_val_digit_char)
  then have "normalizeTime [?h1, ?h2, CHR '':'', m1, m2] = Inr [?h1, ?h2, CHR '':'', m1, m2]"
    using normalizeTime_hhmm_2 [OF d mm(2,3)] assms(1) by simp
  then show ?thesis using p mm(1) by simp
qed

text \<open>
  Idempotence holds wherever the hour of the result is below 24: always in the \<open>HH:MM\<close>
  branch, and in the 12-hour branch when the adjusted hour is below 24.
\<close>

lemma normalizeTime_idempotent_below_24:
  assumes "normalizeTime x = Inr y"
    and "\<And>h m p. match_ampm x = Some (h, m, p) \<Longrightarrow> adjust_hour (toUpperCase p) (parseInt h) < 24"
  shows "normalizeTime y = Inr y"
proof (cases "hhmm_branch x")
  case (Some z)
  then have zy: "z = y" using assms(1) by (simp add: normalizeTime_def)
  from Some obtain h mm where g: "match_hhmm x = Some (h, mm)" "parseInt h < 24"
    "z = padStart0 2 (toString (parseInt h)) @ '':'' @ mm"
    by (auto simp: hhmm_branch_def Let_def split: option.splits if_splits)
  show ?thesis
    using normalizeTime_canonical [OF g(2), of mm] match_hhmm_shape [OF g(1)] g(3) zy by simp
next
  case None
  then obtain h m p where g: "match_ampm x = Some (h, m, p)" "y = from_ampm (h, m, p)"
    using assms(1) by (auto simp: normalizeTime_def split: option.splits)
  let ?mm = "case m of Some mm \<Rightarrow> mm | None \<Rightarrow> ''00''"
  have "is_minutes_opt m" using match_ampm_shape [OF g(1)] by simp
  then have mm: "length ?mm = 2" "list_all is_digit ?mm"
    by (auto simp: is_minutes_opt_def is_digit_def split: option.splits)
  show ?thesis
    using normalizeTime_canonical [OF assms(2) [OF g(1)] mm] g(2)
    by (simp add: from_ampm_def Let_def)
qed

section \<open>The availability engine: properties\<close>

text \<open>
  With the local filter, the answer of \<open>checkAvailability\<close> (service-account entry point)
  is decided by the returned events that overlap the requested window and by nothing else:
  whenever the window is composed and the calendar returns a list, \<open>available\<close> is false
  exactly when some returned event starts before the window ends and ends after it starts.
\<close>

lemma checkAvailability_overlap_rule:
  assumes "request_window c date startTime endTime = Inr (timeMin, timeMax)"
    and "events_list c w
           \<lparr>lr_calendarId = calendar_id c, lr_timeMin = timeMin, lr_timeMax = timeMax\<rparr> = (Inr items, w')"
  shows "get_prop (fst (checkAvailability c w date startTime endTime)) ''available'' =
           Bool (\<not> (\<exists>e \<in> set (case items of Some xs \<Rightarrow> xs | None \<Rightarrow> []).
                      overlaps c timeMin timeMax e))"
  using assms
  by (auto simp: checkAvailability_def get_prop_def Let_def filter_empty_conv split: option.splits)

text \<open>
  In \<open>src/index.js\<close> the answer is decided by the length of the returned list: whenever
  the calendar returns a list that is not empty, \<open>available\<close> is false.
\<close>

lemma checkAvailability_index_any_event:
  assumes "request_window_index c date startTime endTime = Inr (timeMin, timeMax)"
    and "events_list c w
           \<lparr>lr_calendarId = ''primary'', lr_timeMin = timeMin, lr_timeMax = timeMax\<rparr> = (Inr (Some items), w')"
  shows "get_prop (fst (checkAvailability_index c w date startTime endTime)) ''available'' =
           Bool (items = [])"
  using assms by (simp add: checkAvailability_index_def get_prop_def Let_def)

text \<open>
  C1.  \<open>available\<close> must be false only when a returned event overlaps the requested
  window, and an event that shares only a boundary instant with the window must not make
  the slot unavailable.  For the window 14:00 to 15:00 and a calendar that returns one
  event from 13:00 to 14:00, the event does not overlap the window; \<open>checkAvailability\<close>
  of \<open>src/index.js\<close> answers that the slot is already booked, where \<open>checkAvailability\<close>
  of the service-account entry point answers that it is available.
\<close>

theorem checkAvailability_index_boundary_event:
  "fst (checkAvailability_index (calendar_with [event_13_to_14]) 0
          (Str ''2025-01-06'') (Str ''14:00'') (Str ''15:00''))
     = [(''available'', Bool False),
        (''message'', Str ''Sorry, 2025-01-06 from 14:00 to 15:00 is already booked.'')]
   \<and> request_window (calendar_with [event_13_to_14]) (Str ''2025-01-06'') (Str ''14:00'') (Str ''15:00'')
     = Inr (1736190000000, 1736193600000)
   \<and> event_date (calendar_with [event_13_to_14]) (ev_end event_13_to_14) = Some 1736190000000
   \<and> \<not> overlaps (calendar_with [event_13_to_14]) 1736190000000 1736193600000 event_13_to_14
   \<and> fst (checkAvailability (calendar_with [event_13_to_14]) 0
          (Str ''2025-01-06'') (Str ''14:00'') (Str ''15:00''))
     = [(''available'', Bool True),
        (''message'', Str ''Yes, 2025-01-06 from 14:00 to 15:00 is available. [DEBUG: Found 1 total events, 0 overlapping]'')]"
  by code_simp

section \<open>The booking engine: properties\<close>

text \<open>
  \<open>bookAppointment\<close> of the service-account entry point always returns one of the two
  shapes: \<open>{success: false, message}\<close> or \<open>{success: true, message, eventId, link}\<close>.
\<close>

lemma bookAppointment_shapes:
  "(\<exists>m. fst (bookAppointment c w summary date startTime endTime description email)
          = [(''success'', Bool False), (''message'', Str m)])
   \<or> (\<exists>m i l. fst (bookAppointment c w summary date startTime endTime description email)
          = [(''success'', Bool True), (''message'', Str m), (''eventId'', i), (''link'', l)])"
  by (auto simp: bookAppointment_def Let_def split: sum.splits prod.splits)

text \<open>
  C3.  On any failure \<open>bookAppointment\<close> must return \<open>{success: false, message}\<close>, and on
  success a record that holds \<open>message\<close> too.  The result of \<open>bookAppointment\<close> of the
  conversational entry points never has a \<open>message\<close>: for a calendar that refuses the
  insert, it is \<open>{success: false, error}\<close>.
\<close>

theorem bookAppointment_v1_has_no_message:
  "map_of (fst (bookAppointment_v1 c w summary date startTime endTime description)) ''message'' = None
   \<and> fst (bookAppointment_v1 (calendar_with []) 0
            (Str ''Haircut'') (Str ''2025-01-06'') (Str ''14:00'') (Str ''15:00'') Undefined)
       = [(''success'', Bool False), (''error'', Str ''Calendar usage limits exceeded.'')]"
proof -
  have a: "map_of (fst (bookAppointment_v1 c w summary date startTime endTime description)) ''message'' = None"
    by (simp add: bookAppointment_v1_def Let_def split: sum.splits prod.splits)
  have b: "fst (bookAppointment_v1 (calendar_with []) 0
            (Str ''Haircut'') (Str ''2025-01-06'') (Str ''14:00'') (Str ''15:00'') Undefined)
       = [(''success'', Bool False), (''error'', Str ''Calendar usage limits exceeded.'')]"
    by code_simp
  show ?thesis using a b by simp
qed

section \<open>The tool-call webhook: properties\<close>

lemma run_tool_call_id: "toolCallId (fst (run_tool_call c w tid name args)) = tid"
  by (simp add: run_tool_call_def Let_def split: sum.splits prod.splits tool_arguments.splits)

lemma run_tool_call_malformed:
  assumes "JSON_parse c s = Inl e"
  shows "run_tool_call c w tid name (Encoded s) =
           (\<lparr>toolCallId = tid, result = Str (''Error: '' @ message e)\<rparr>, w)"
  using assms by (simp add: run_tool_call_def)

lemma destructure_call_function:
  "tc_function tc = Some f \<Longrightarrow> destructure_call (Some tc) = Inr (tc_id tc, fn_name f, fn_arguments f)"
  by (simp add: destructure_call_def)

text \<open>The loop only appends to the results it starts from.\<close>

lemma tool_call_loop_acc:
  "tool_call_loop c calls (acc, w) =
     (map_sum (\<lambda>e. e) (\<lambda>rs. acc @ rs) (fst (tool_call_loop c calls ([], w))),
      snd (tool_call_loop c calls ([], w)))"
proof (induction calls arbitrary: acc w)
  case Nil
  then show ?case by simp
next
  case (Cons toolCall rest)
  show ?case
  proof (cases "destructure_call toolCall")
    case (Inl e)
    then show ?thesis by simp
  next
    case (Inr t)
    obtain tid name args where t: "t = (tid, name, args)" by (cases t)
    obtain r w' where step: "run_tool_call c w tid name args = (r, w')"
      by (cases "run_tool_call c w tid name args")
    have "map_sum (\<lambda>e. e) (\<lambda>rs. (acc @ [r]) @ rs) x = map_sum (\<lambda>e. e) (\<lambda>rs. acc @ rs) (map_sum (\<lambda>e. e) (\<lambda>rs. [r] @ rs) x)"
      for x :: "js_error + tool_result list"
      by (cases x) simp_all
    then show ?thesis
      using Cons.IH [of "acc @ [r]" w'] Cons.IH [of "[r]" w'] step Inr t by simp
  qed
qed

lemma tool_call_loop_append:
  "tool_call_loop c (xs @ ys) (acc, w) =
     (case tool_call_loop c xs (acc, w) of
        (Inl e, w') \<Rightarrow> (Inl e, w')
      | (Inr rs, w') \<Rightarrow> tool_call_loop c ys (rs, w'))"
proof (induction xs arbitrary: acc w)
  case Nil
  then show ?case by simp
next
  case (Cons toolCall rest)
  then show ?case by (simp split: sum.splits prod.splits)
qed

text \<open>On invocations that each have a \<open>function\<close> the loop ends with one result for
  each, under its id, in the order of the batch.\<close>

lemma tool_call_loop_ids:
  assumes "list_all (\<lambda>tc. tc_function tc \<noteq> None) tcs"
  shows "\<exists>rs w'. tool_call_loop c (map Some tcs) (acc, w) = (Inr rs, w')
           \<and> map toolCallId rs = map toolCallId acc @ map tc_id tcs"
  using assms
proof (induction tcs arbitrary: acc w)
  case Nil
  then show ?case by simp
next
  case (Cons tc rest)
  then obtain f where f: "tc_function tc = Some f" by auto
  obtain r w' where step: "run_tool_call c w (tc_id tc) (fn_name f) (fn_arguments f) = (r, w')"
    by (cases "run_tool_call c w (tc_id tc) (fn_name f) (fn_arguments f)")
  then have id: "toolCallId r = tc_id tc"
    using run_tool_call_id [of c w "tc_id tc" "fn_name f" "fn_arguments f"] by simp
  from Cons obtain rs w'' where
    "tool_call_loop c (map Some rest) (acc @ [r], w') = (Inr rs, w'')"
    "map toolCallId rs = map toolCallId (acc @ [r]) @ map tc_id rest"
    by fastforce
  then show ?case using step id destructure_call_function [OF f] by simp
qed

text \<open>
  What holds of the webhook on a batch whose invocations each have a \<open>function\<close>: it
  answers 200 with one result per invocation, each under the id of its invocation.
\<close>

lemma webhook_results_when_functions_present:
  assumes "tcs \<noteq> []" "list_all (\<lambda>tc. tc_function tc \<noteq> None) tcs"
  shows "\<exists>results w'. webhook c w (Some (map Some tcs)) = (Inr \<lparr>status = 200, body = Results results\<rparr>, w')
           \<and> map toolCallId results = map tc_id tcs"
proof -
  obtain rs w' where "tool_call_loop c (map Some tcs) ([], w) = (Inr rs, w')"
    "map toolCallId rs = map tc_id tcs"
    using tool_call_loop_ids [OF assms(2), of c "[]" w] by auto
  then show ?thesis using assms(1) by (simp add: webhook_def)
qed

text \<open>
  An invocation whose argument text \<open>JSON.parse\<close> rejects gets the result \<open>Error:\<close> and
  the message of the exception, and leaves the remote state as it was: among invocations
  that each have a \<open>function\<close>, those before it and after it get the results they get
  without it.
\<close>

lemma webhook_malformed_arguments:
  assumes "list_all (\<lambda>tc. tc_function tc \<noteq> None) earlier"
    and "list_all (\<lambda>tc. tc_function tc \<noteq> None) later"
    and "tc_function bad = Some f" "fn_arguments f = Encoded s" "JSON_parse c s = Inl e"
  shows "\<exists>rs1 w1 rs2 w2.
             tool_call_loop c (map Some earlier) ([], w) = (Inr rs1, w1)
           \<and> tool_call_loop c (map Some later) ([], w1) = (Inr rs2, w2)
           \<and> webhook c w (Some (map Some (earlier @ [bad] @ later))) =
               (Inr \<lparr>status = 200,
                     body = Results (rs1 @ [\<lparr>toolCallId = tc_id bad,
                                            result = Str (''Error: '' @ message e)\<rparr>] @ rs2)\<rparr>, w2)"
proof -
  obtain rs1 w1 where l1: "tool_call_loop c (map Some earlier) ([], w) = (Inr rs1, w1)"
    using tool_call_loop_ids [OF assms(1), of c "[]" w] by auto
  obtain rs2 w2 where l2: "tool_call_loop c (map Some later) ([], w1) = (Inr rs2, w2)"
    using tool_call_loop_ids [OF assms(2), of c "[]" w1] by auto
  let ?r = "\<lparr>toolCallId = tc_id bad, result = Str (''Error: '' @ message e)\<rparr>"
  have step: "tool_call_loop c [Some bad] (rs1, w1) = (Inr (rs1 @ [?r]), w1)"
    using destructure_call_function [OF assms(3)] assms(4)
      run_tool_call_malformed [OF assms(5), of w1 "tc_id bad" "fn_name f"]
    by simp
  have "tool_call_loop c (map Some (earlier @ [bad] @ later)) ([], w)
          = tool_call_loop c (map Some later) (rs1 @ [?r], w1)"
    using l1 step
      tool_call_loop_append [of c "map Some earlier" "[Some bad] @ map Some later" "[]" w]
      tool_call_loop_append [of c "[Some bad]" "map Some later" rs1 w1]
    by simp
  also have "\<dots> = (Inr (rs1 @ [?r] @ rs2), w2)"
    using tool_call_loop_acc [of c "map Some later" "rs1 @ [?r]" w1] l2 by simp
  finally have "webhook c w (Some (map Some (earlier @ [bad] @ later))) =
                  (Inr \<lparr>status = 200, body = Results (rs1 @ [?r] @ rs2)\<rparr>, w2)"
    by (simp add: webhook_def)
  then show ?thesis using l1 l2 by blast
qed

text \<open>
  An element that is \<open>null\<close> or has no \<open>function\<close> ends the handler with its exception
  and without a response, whatever stands after it in the batch, once the invocations
  before it have run.
\<close>

lemma webhook_throws_outside_try:
  assumes "list_all (\<lambda>tc. tc_function tc \<noteq> None) earlier" "destructure_call bad = Inl e"
  shows "\<exists>w'. webhook c w (Some (map Some earlier @ [bad] @ later)) = (Inl e, w')"
proof -
  obtain rs1 w1 where l1: "tool_call_loop c (map Some earlier) ([], w) = (Inr rs1, w1)"
    using tool_call_loop_ids [OF assms(1), of c "[]" w] by auto
  have "tool_call_loop c (map Some earlier @ [bad] @ later) ([], w) = (Inl e, w1)"
    using l1 assms(2) tool_call_loop_append [of c "map Some earlier" "[bad] @ later" "[]" w]
    by simp
  then show ?thesis by (simp add: webhook_def)
qed

text \<open>
  C4.  Every batch must get one result per invocation, and one bad invocation must not
  cost the others their results.  The batch below holds a well-formed invocation and one
  without \<open>function\<close>: after the first has queried the calendar, the handler ends with the
  \<open>TypeError\<close> of the destructuring that stands before the \<open>try\<close>, and sends no
  results at all.  With an invocation whose argument text is not JSON in its place, the
  same batch gets its two results.
\<close>

theorem webhook_batch_fails_without_function:
  "webhook (calendar_with []) 0
     (Some [Some \<lparr>tc_id = ''call_1'',
                   tc_function = Some \<lparr>fn_name = ''check_availability'',
                     fn_arguments = Structured (Fields [(''date'', Str ''2025-01-06''),
                                                        (''start_time'', Str ''2 PM''),
                                                        (''end_time'', Str ''15:00'')])\<rparr>\<rparr>,
            Some \<lparr>tc_id = ''call_2'', tc_function = None\<rparr>])
     = (Inl (TypeError ''Cannot destructure property 'name' of 'func' as it is undefined.''), 1)
   \<and> webhook (calendar_with []) 0
     (Some [Some \<lparr>tc_id = ''call_1'',
                   tc_function = Some \<lparr>fn_name = ''check_availability'',
                     fn_arguments = Structured (Fields [(''date'', Str ''2025-01-06''),
                                                        (''start_time'', Str ''2 PM''),
                                                        (''end_time'', Str ''15:00'')])\<rparr>\<rparr>,
            Some \<lparr>tc_id = ''call_2'',
                   tc_function = Some \<lparr>fn_name = ''book_appointment'',
                                        fn_arguments = Encoded ''{''\<rparr>\<rparr>])
     = (Inr \<lparr>status = 200,
         body = Results
           [\<lparr>toolCallId = ''call_1'',
             result = Str ''Yes, 2025-01-06 from 2 PM to 15:00 is available. [DEBUG: Found 0 total events, 0 overlapping]''\<rparr>,
            \<lparr>toolCallId = ''call_2'',
             result = Str ''Error: Expected property name or '}' in JSON at position 1 (line 1 column 2)''\<rparr>]\<rparr>, 1)"
  by code_simp

section \<open>Canonicalization and validation of a conversation: properties\<close>

lemma find_system_at:
  assumes "list_all (\<lambda>m. role m \<noteq> ''system'') pre" "role s = ''system''"
  shows "find (\<lambda>m. role m = ''system'') (pre @ s # post) = Some s"
  using assms by (induction pre) simp_all

lemma filter_no_system:
  "list_all (\<lambda>m. role m \<noteq> ''system'') xs \<Longrightarrow> filter (\<lambda>m. role m \<noteq> ''system'') xs = xs"
  by (induction xs) simp_all

text \<open>
  C7, as the code has it.  Let \<open>s\<close> be the first system turn of a message list.  The
  system prompt is the content of \<open>s\<close> when that content is not empty, and the default
  persona when it is.  The turn sequence is the list of the turns that are not system
  turns, in their order, each with its content, under the role \<open>assistant\<close> when that
  is its role and \<open>user\<close> otherwise.  When \<open>s\<close> is the only system turn, neither
  depends on where \<open>s\<close> stands among the other turns.
\<close>

theorem canonicalize_system_turn:
  assumes "role s = ''system''" "list_all (\<lambda>m. role m \<noteq> ''system'') pre"
  shows "systemMessage_of (pre @ [s] @ post) = (if content s = [] then default_system else content s)
       \<and> claudeMessages_of (pre @ [s] @ post) =
           map (\<lambda>m. \<lparr>role = (if role m = ''assistant'' then ''assistant'' else ''user''),
                     content = content m\<rparr>)
               (filter (\<lambda>m. role m \<noteq> ''system'') (pre @ post))
       \<and> (list_all (\<lambda>m. role m \<noteq> ''system'') post \<longrightarrow>
            claudeMessages_of (pre @ [s] @ post) =
              map (\<lambda>m. \<lparr>role = (if role m = ''assistant'' then ''assistant'' else ''user''),
                        content = content m\<rparr>) (pre @ post)
          \<and> (\<forall>pre' post'. pre' @ post' = pre @ post \<longrightarrow>
                systemMessage_of (pre' @ [s] @ post') = systemMessage_of (pre @ [s] @ post)
              \<and> claudeMessages_of (pre' @ [s] @ post') = claudeMessages_of (pre @ [s] @ post)))"
proof -
  have sys: "systemMessage_of (a @ [s] @ b) = (if content s = [] then default_system else content s)"
    if "list_all (\<lambda>m. role m \<noteq> ''system'') a" for a b
    using that assms(1) find_system_at [of a s b] by (simp add: systemMessage_of_def)
  have turns: "claudeMessages_of (a @ [s] @ b) =
           map (\<lambda>m. \<lparr>role = (if role m = ''assistant'' then ''assistant'' else ''user''),
                     content = content m\<rparr>)
               (filter (\<lambda>m. role m \<noteq> ''system'') (a @ b))" for a b
    using assms(1) by (simp add: claudeMessages_of_def)
  have only: "claudeMessages_of (pre @ [s] @ post) =
              map (\<lambda>m. \<lparr>role = (if role m = ''assistant'' then ''assistant'' else ''user''),
                        content = content m\<rparr>) (pre @ post)
          \<and> (\<forall>pre' post'. pre' @ post' = pre @ post \<longrightarrow>
                systemMessage_of (pre' @ [s] @ post') = systemMessage_of (pre @ [s] @ post)
              \<and> claudeMessages_of (pre' @ [s] @ post') = claudeMessages_of (pre @ [s] @ post))"
    if post: "list_all (\<lambda>m. role m \<noteq> ''system'') post"
  proof -
    have all: "list_all (\<lambda>m. role m \<noteq> ''system'') (pre @ post)" using assms(2) post by simp
    have first: "claudeMessages_of (pre @ [s] @ post) =
              map (\<lambda>m. \<lparr>role = (if role m = ''assistant'' then ''assistant'' else ''user''),
                        content = content m\<rparr>) (pre @ post)"
      using turns [of pre post] unfolding filter_no_system [OF all] .
    have "systemMessage_of (pre' @ [s] @ post') = systemMessage_of (pre @ [s] @ post)
              \<and> claudeMessages_of (pre' @ [s] @ post') = claudeMessages_of (pre @ [s] @ post)"
      if eq: "pre' @ post' = pre @ post" for pre' post'
    proof -
      have "list_all (\<lambda>m. role m \<noteq> ''system'') (pre' @ post')" using all eq by simp
      then have "list_all (\<lambda>m. role m \<noteq> ''system'') pre'" by simp
      then show ?thesis
        using sys [of pre' post'] sys [OF assms(2), of post] turns [of pre' post'] turns [of pre post] eq
        by simp
    qed
    then show ?thesis using first by blast
  qed
  show ?thesis using sys [OF assms(2), of post] turns [of pre post] only by blast
qed

theorem canonicalize_system_turn_witness:
  "role \<lparr>role = ''system'', content = ''Be brief.''\<rparr> = ''system''
   \<and> list_all (\<lambda>m. role m \<noteq> ''system'') [\<lparr>role = ''user'', content = ''Hello''\<rparr>]
   \<and> list_all (\<lambda>m. role m \<noteq> ''system'') [\<lparr>role = ''tool'', content = ''ok''\<rparr>]
   \<and> systemMessage_of [\<lparr>role = ''user'', content = ''Hello''\<rparr>,
                        \<lparr>role = ''system'', content = ''Be brief.''\<rparr>,
                        \<lparr>role = ''tool'', content = ''ok''\<rparr>] = ''Be brief.''
   \<and> claudeMessages_of [\<lparr>role = ''user'', content = ''Hello''\<rparr>,
                         \<lparr>role = ''system'', content = ''Be brief.''\<rparr>,
                         \<lparr>role = ''tool'', content = ''ok''\<rparr>]
       = [\<lparr>role = ''user'', content = ''Hello''\<rparr>, \<lparr>role = ''user'', content = ''ok''\<rparr>]
   \<and> systemMessage_of [\<lparr>role = ''system'', content = ''Be brief.''\<rparr>,
                        \<lparr>role = ''user'', content = ''Hello''\<rparr>,
                        \<lparr>role = ''tool'', content = ''ok''\<rparr>]
       = systemMessage_of [\<lparr>role = ''user'', content = ''Hello''\<rparr>,
                           \<lparr>role = ''system'', content = ''Be brief.''\<rparr>,
                           \<lparr>role = ''tool'', content = ''ok''\<rparr>]
   \<and> claudeMessages_of [\<lparr>role = ''system'', content = ''Be brief.''\<rparr>,
                         \<lparr>role = ''user'', content = ''Hello''\<rparr>,
                         \<lparr>role = ''tool'', content = ''ok''\<rparr>]
       = claudeMessages_of [\<lparr>role = ''user'', content = ''Hello''\<rparr>,
                            \<lparr>role = ''system'', content = ''Be brief.''\<rparr>,
                            \<lparr>role = ''tool'', content = ''ok''\<rparr>]"
proof -
  let ?s = "\<lparr>role = ''system'', content = ''Be brief.''\<rparr>"
  let ?u = "\<lparr>role = ''user'', content = ''Hello''\<rparr>"
  let ?t = "\<lparr>role = ''tool'', content = ''ok''\<rparr>"
  have a: "role ?s = ''system''" by simp
  have b: "list_all (\<lambda>m. role m \<noteq> ''system'') [?u]" by simp
  have c: "list_all (\<lambda>m. role m \<noteq> ''system'') [?t]" by simp
  note inst = canonicalize_system_turn [OF a b, of "[?t]"]
  have sys: "systemMessage_of ([?u] @ [?s] @ [?t]) = ''Be brief.''" using inst by simp
  have turns: "claudeMessages_of ([?u] @ [?s] @ [?t]) =
      [\<lparr>role = ''user'', content = ''Hello''\<rparr>, \<lparr>role = ''user'', content = ''ok''\<rparr>]"
    using inst by simp
  have "[] @ [?u, ?t] = [?u] @ [?t]" by simp
  then have moved: "systemMessage_of ([] @ [?s] @ [?u, ?t]) = systemMessage_of ([?u] @ [?s] @ [?t])
      \<and> claudeMessages_of ([] @ [?s] @ [?u, ?t]) = claudeMessages_of ([?u] @ [?s] @ [?t])"
    using inst c by blast
  show ?thesis using a b c sys turns moved by simp
qed

text \<open>
  C7, as the claim states it, fails in two ways.  A system turn with empty content is
  removed, and the system prompt is the default persona, not that content.  With two
  system turns, both are removed and the prompt is the content of the first, so moving a
  system turn changes the result.
\<close>

theorem canonicalize_counterexample:
  "systemMessage_of [\<lparr>role = ''system'', content = ''''\<rparr>, \<lparr>role = ''user'', content = ''Hello''\<rparr>]
     \<noteq> content \<lparr>role = ''system'', content = ''''\<rparr>
   \<and> systemMessage_of [\<lparr>role = ''system'', content = ''Be brief.''\<rparr>,
                        \<lparr>role = ''user'', content = ''Hello''\<rparr>,
                        \<lparr>role = ''system'', content = ''Be formal.''\<rparr>]
     \<noteq> systemMessage_of [\<lparr>role = ''system'', content = ''Be formal.''\<rparr>,
                          \<lparr>role = ''system'', content = ''Be brief.''\<rparr>,
                          \<lparr>role = ''user'', content = ''Hello''\<rparr>]"
  by (simp add: systemMessage_of_def default_system_def)

text \<open>
  C8.  A conversational request whose payload yields no usable turns (\<open>messages\<close>
  missing, not an array, empty, or holding system turns only) is answered 400 with an
  error message; the state of the remote services is the one the handler started from,
  whatever the collaborators do when called, so no remote call was made.  A webhook request
  without tool calls is answered 200 with \<open>{received: true}\<close>, also without a remote
  call.  The two responses differ.
\<close>

theorem empty_conversation_rejected:
  "(usable_turns field = [] \<longrightarrow>
      (\<exists>m. handleConversation c w field = (\<lparr>status = 400, body = ErrorMessage m\<rparr>, w))
      \<and> Inr (fst (handleConversation c w field)) \<noteq> fst (webhook c w None))
   \<and> webhook c w None = (Inr \<lparr>status = 200, body = Received\<rparr>, w)
   \<and> webhook c w (Some []) = (Inr \<lparr>status = 200, body = Received\<rparr>, w)"
proof -
  have b: "webhook c w None = (Inr \<lparr>status = 200, body = Received\<rparr>, w)"
    "webhook c w (Some []) = (Inr \<lparr>status = 200, body = Received\<rparr>, w)"
    by (simp_all add: webhook_def)
  have a: "(\<exists>m. handleConversation c w field = (\<lparr>status = 400, body = ErrorMessage m\<rparr>, w))
      \<and> Inr (fst (handleConversation c w field)) \<noteq> fst (webhook c w None)"
    if none: "usable_turns field = []"
  proof -
    have "\<exists>m. handleConversation c w field = (\<lparr>status = 400, body = ErrorMessage m\<rparr>, w)"
      using none
      by (cases field) (simp_all add: handleConversation_def usable_turns_def Let_def)
    then obtain m where r: "handleConversation c w field = (\<lparr>status = 400, body = ErrorMessage m\<rparr>, w)"
      by blast
    then have "Inr (fst (handleConversation c w field)) \<noteq> fst (webhook c w None)"
      using b(1) by simp
    then show ?thesis using r by blast
  qed
  show ?thesis using a b by blast
qed

theorem empty_conversation_rejected_witness:
  "usable_turns (MessageArray [\<lparr>role = ''system'', content = ''Be brief.''\<rparr>]) = []
   \<and> handleConversation (calendar_with []) 0 (MessageArray [\<lparr>role = ''system'', content = ''Be brief.''\<rparr>])
       = (\<lparr>status = 400, body = ErrorMessage ''At least one non-system message required''\<rparr>, 0)
   \<and> usable_turns Absent = []
   \<and> handleConversation (calendar_with []) 0 Absent
       = (\<lparr>status = 400, body = ErrorMessage ''No valid messages provided''\<rparr>, 0)
   \<and> webhook (calendar_with []) 0 None = (Inr \<lparr>status = 200, body = Received\<rparr>, 0)
   \<and> Inr (fst (handleConversation (calendar_with []) 0 Absent)) \<noteq> fst (webhook (calendar_with []) 0 None)"
proof -
  let ?only_system = "MessageArray [\<lparr>role = ''system'', content = ''Be brief.''\<rparr>]"
  have a: "usable_turns ?only_system = []"
    by (simp add: usable_turns_def claudeMessages_of_def)
  have b: "usable_turns Absent = []" by (simp add: usable_turns_def)
  note i1 = empty_conversation_rejected [of ?only_system "calendar_with []" 0]
  note i2 = empty_conversation_rejected [of Absent "calendar_with []" 0]
  obtain m1 where "handleConversation (calendar_with []) 0 ?only_system
                     = (\<lparr>status = 400, body = ErrorMessage m1\<rparr>, 0)"
    using i1 a by blast
  moreover have "fst (handleConversation (calendar_with []) 0 ?only_system)
                   = \<lparr>status = 400, body = ErrorMessage ''At least one non-system message required''\<rparr>"
    by (simp add: handleConversation_def claudeMessages_of_def Let_def)
  ultimately have c: "handleConversation (calendar_with []) 0 ?only_system
       = (\<lparr>status = 400, body = ErrorMessage ''At least one non-system message required''\<rparr>, 0)"
    by simp
  obtain m2 where "handleConversation (calendar_with []) 0 Absent
                     = (\<lparr>status = 400, body = ErrorMessage m2\<rparr>, 0)"
    using i2 b by blast
  moreover have "fst (handleConversation (calendar_with []) 0 Absent)
                   = \<lparr>status = 400, body = ErrorMessage ''No valid messages provided''\<rparr>"
    by (simp add: handleConversation_def)
  ultimately have d: "handleConversation (calendar_with []) 0 Absent
       = (\<lparr>status = 400, body = ErrorMessage ''No valid messages provided''\<rparr>, 0)"
    by simp
  have e: "webhook (calendar_with []) 0 None = (Inr \<lparr>status = 200, body = Received\<rparr>, 0)"
    using i2 by blast
  have f: "Inr (fst (handleConversation (calendar_with []) 0 Absent)) \<noteq> fst (webhook (calendar_with []) 0 None)"
    using i2 b by blast
  show ?thesis using a b c d e f by blast
qed

end
